theory Spec2Isabelle
  imports Main "HOL-Library.Word" "HOL-Library.Sublist"
begin

section \<open>Python values shared by both modules\<close>

text \<open>
  The exceptions the two modules raise or let through.  \<open>DoesNotExist\<close> is peewee's,
  the file errors are the ones \<open>pathlib\<close>, \<open>open\<close> and \<open>zipfile\<close> raise,
  \<open>IntegrityError\<close> is the database's for a row it will not store, and
  \<open>ExternalError\<close> stands for whatever an external collaborator (a storage backend, a
  codec) raises on its own.
\<close>

datatype error =
    KeyError string
  | ValueError string
  | TypeError string
  | AttributeError string
  | DoesNotExist
  | FileNotFoundError
  | FileExistsError
  | NotADirectoryError
  | IsADirectoryError
  | BadZipFile
  | IntegrityError string
  | ExternalError string

text \<open>
  A Python \<open>dict\<close> is an association list in insertion order with distinct keys:
  \<open>d[k] = v\<close> replaces the binding in place or appends it, \<open>del d[k]\<close> removes it,
  \<open>d.update(m)\<close> stores the bindings of \<open>m\<close> one after the other and \<open>d.pop(k)\<close>
  raises \<open>KeyError\<close> on a missing key.
\<close>

fun dict_set :: "'k \<Rightarrow> 'v \<Rightarrow> ('k \<times> 'v) list \<Rightarrow> ('k \<times> 'v) list" where
  "dict_set k v [] = [(k, v)]"
| "dict_set k v (kv # kvs) = (if fst kv = k then (k, v) # kvs else kv # dict_set k v kvs)"

definition dict_del :: "'k \<Rightarrow> ('k \<times> 'v) list \<Rightarrow> ('k \<times> 'v) list" where
  "dict_del k d = filter (\<lambda>kv. fst kv \<noteq> k) d"

definition dict_update :: "('k \<times> 'v) list \<Rightarrow> ('k \<times> 'v) list \<Rightarrow> ('k \<times> 'v) list" where
  "dict_update d m = foldl (\<lambda>acc kv. dict_set (fst kv) (snd kv) acc) d m"

definition dict_pop :: "string \<Rightarrow> (string \<times> 'v) list \<Rightarrow> error + ('v \<times> (string \<times> 'v) list)" where
  "dict_pop k d = (case map_of d k of None \<Rightarrow> Inl (KeyError k) | Some v \<Rightarrow> Inr (v, dict_del k d))"

section \<open>sync\_model.py: choosing the storage backend\<close>

text \<open>
  The store address of the service registry is a nested dictionary of strings.  The
  registry holds a reference to it; \<open>deepcopy\<close> allocates a new object with the same
  contents, and \<open>pop\<close> mutates the object it is called on.  Objects therefore live in a
  store indexed by address, so that the difference between the registry's object and the
  copy is visible.
\<close>

datatype cfg = CStr string | CDict "(string \<times> cfg) list"

datatype storage_class =
    MysqlModelStorage
  | TencentCOSModelStorage
  | MysqlComponentStorage
  | TencentCOSComponentStorage

definition model_storage_map :: "(string \<times> storage_class) list" where
  "model_storage_map = [(''mysql'', MysqlModelStorage), (''tencent_cos'', TencentCOSModelStorage)]"

definition component_storage_map :: "(string \<times> storage_class) list" where
  "component_storage_map =
     [(''mysql'', MysqlComponentStorage), (''tencent_cos'', TencentCOSComponentStorage)]"

text \<open>
  The part of the interpreter's state the constructors touch: the object store, the
  reference \<open>ServerRegistry.MODEL_STORE_ADDRESS\<close>, and the log of the storage backends
  constructed so far, each with the keyword arguments it was given.
\<close>

record interp =
  objects :: "cfg list"
  MODEL_STORE_ADDRESS :: nat
  constructed :: "(storage_class \<times> cfg option) list"

definition valid_interp :: "interp \<Rightarrow> bool" where
  "valid_interp st = (MODEL_STORE_ADDRESS st < length (objects st))"

definition deepcopy :: "nat \<Rightarrow> cfg list \<Rightarrow> nat \<times> cfg list" where
  "deepcopy a h = (length h, h @ [h ! a])"

definition unsupported :: "string \<Rightarrow> error" where
  "unsupported store_type =
     KeyError (''Model storage '' @ [CHR 0x27] @ store_type @ [CHR 0x27] @ '' is not supported.'')"

text \<open>
  \<open>get_storage\<close> returns the backend class and the reference to the copied address.
  The return annotation of the source, \<open>tuple(ModelStorageBase, dict)\<close>, is not part of
  the body and is not modelled.  A store type that is itself a dictionary cannot be
  looked up in \<open>storage_map\<close>: Python raises \<open>TypeError\<close> for the unhashable key.
\<close>

definition get_storage ::
  "(string \<times> storage_class) list \<Rightarrow> interp \<Rightarrow> (error + storage_class \<times> nat) \<times> interp" where
  "get_storage storage_map st =
     (let (store_address, h1) = deepcopy (MODEL_STORE_ADDRESS st) (objects st);
          st1 = st\<lparr>objects := h1\<rparr>
      in case h1 ! store_address of
           CStr s \<Rightarrow> (Inl (AttributeError ''pop''), st1)
         | CDict d \<Rightarrow>
             (case dict_pop ''storage'' d of
                Inl e \<Rightarrow> (Inl e, st1)
              | Inr (store_type, d') \<Rightarrow>
                  (let st2 = st1\<lparr>objects := h1[store_address := CDict d']\<rparr>
                   in case store_type of
                        CDict x \<Rightarrow> (Inl (TypeError ''unhashable type: dict''), st2)
                      | CStr s \<Rightarrow>
                          (case map_of storage_map s of
                             None \<Rightarrow> (Inl (unsupported s), st2)
                           | Some c \<Rightarrow> (Inr (c, store_address), st2)))))"

text \<open>
  \<open>PipelinedModel\<close> is not part of these two files; the attributes of it that the
  source reads are the fields of this record, and its constructor is a parameter of the
  constructors below, as are the constructors of the storage backends.
\<close>

record pipelined_model =
  pm_role :: string
  pm_party_id :: string
  pm_model_id :: string
  pm_model_version :: string
  pm_party_model_id :: string

record 'b sync_model =
  pipelined_model :: pipelined_model
  model_storage :: 'b
  model_storage_parameters :: "string \<times> string \<times> nat"
  lock :: string

definition SyncModel_init ::
  "(string \<Rightarrow> string \<Rightarrow> error + pipelined_model) \<Rightarrow> (storage_class \<Rightarrow> cfg option \<Rightarrow> error + 'b) \<Rightarrow>
     string \<Rightarrow> string \<Rightarrow> interp \<Rightarrow> (error + 'b sync_model) \<times> interp" where
  "SyncModel_init PipelinedModel new_storage party_model_id model_version st =
     (case PipelinedModel party_model_id model_version of
        Inl e \<Rightarrow> (Inl e, st)
      | Inr pm \<Rightarrow>
          (case get_storage model_storage_map st of
             (Inl e, st1) \<Rightarrow> (Inl e, st1)
           | (Inr (storage, storage_address), st1) \<Rightarrow>
               (let st2 = st1\<lparr>constructed := constructed st1 @ [(storage, None)]\<rparr>
                in case new_storage storage None of
                     Inl e \<Rightarrow> (Inl e, st2)
                   | Inr b \<Rightarrow>
                       (Inr \<lparr>pipelined_model = pm,
                             model_storage = b,
                             model_storage_parameters = (party_model_id, model_version, storage_address),
                             lock = ''sync_model_'' @ party_model_id @ ''_'' @ model_version\<rparr>,
                        st2))))"

text \<open>
  \<open>SyncComponent.__init__\<close> assigns and reads attributes of \<open>self\<close> in an order that
  matters, so the instance is modelled as Python has it: a dictionary of attributes,
  empty when \<open>__init__\<close> starts.  Reading an attribute looks in the instance first, then in
  the class (which defines only methods), and raises \<open>AttributeError\<close> otherwise.
\<close>

datatype 'b pyattr =
    Backend 'b
  | Model pipelined_model
  | Str string
  | StorageParameters string string "'b pyattr"
  | QueryArgs string string string string string
  | Lock string
  | BoundMethod string

definition SyncComponent_class :: "string list" where
  "SyncComponent_class =
     [''__init__'', ''local_exits'', ''remote_exits'', ''get_archive_hash'',
      ''update_archive_hash'', ''upload'', ''download'']"

definition getattr :: "(string \<times> 'b pyattr) list \<Rightarrow> string \<Rightarrow> error + 'b pyattr" where
  "getattr self name =
     (case map_of self name of
        Some v \<Rightarrow> Inr v
      | None \<Rightarrow>
          if name \<in> set SyncComponent_class then Inr (BoundMethod name)
          else Inl (AttributeError name))"

definition model_attr :: "(pipelined_model \<Rightarrow> string) \<Rightarrow> string \<Rightarrow> 'b pyattr \<Rightarrow> error + string" where
  "model_attr field name v = (case v of Model pm \<Rightarrow> Inr (field pm) | _ \<Rightarrow> Inl (AttributeError name))"

definition bindE :: "error + 'a \<Rightarrow> ('a \<Rightarrow> error + 'c) \<Rightarrow> error + 'c" where
  "bindE r f = (case r of Inl e \<Rightarrow> Inl e | Inr x \<Rightarrow> f x)"

definition lock_name :: "'b pyattr \<Rightarrow> error + string" where
  "lock_name v =
     (case v of
        StorageParameters a b (Str c) \<Rightarrow> Inr (''sync_component_'' @ a @ ''_'' @ b @ ''_'' @ c)
      | StorageParameters a b x \<Rightarrow> Inl (TypeError ''sequence item: expected str instance'')
      | _ \<Rightarrow> Inl (TypeError ''argument after * must be an iterable''))"

text \<open>
  The statements of \<open>__init__\<close> after the backend has been constructed, in source order:
  the tuple \<open>component_storage_parameters\<close> is built first, from
  \<open>self.pipelined_model\<close> and \<open>self.component_name\<close>; only afterwards are these two
  attributes assigned.
\<close>

definition SyncComponent_attributes ::
  "(string \<Rightarrow> string \<Rightarrow> error + pipelined_model) \<Rightarrow> string \<Rightarrow> string \<Rightarrow> string \<Rightarrow>
     (string \<times> 'b pyattr) list \<Rightarrow> error + (string \<times> 'b pyattr) list" where
  "SyncComponent_attributes PipelinedModel party_model_id model_version component_name self1 =
     bindE (getattr self1 ''pipelined_model'') (\<lambda>m1.
     bindE (model_attr pm_party_model_id ''party_model_id'' m1) (\<lambda>p1.
     bindE (getattr self1 ''pipelined_model'') (\<lambda>m2.
     bindE (model_attr pm_model_version ''model_version'' m2) (\<lambda>p2.
     bindE (getattr self1 ''component_name'') (\<lambda>p3.
     let self2 = dict_set ''component_storage_parameters'' (StorageParameters p1 p2 p3) self1 in
     bindE (PipelinedModel party_model_id model_version) (\<lambda>pm.
     let self3 = dict_set ''pipelined_model'' (Model pm) self2;
         self4 = dict_set ''component_name'' (Str component_name) self3 in
     bindE (getattr self4 ''pipelined_model'') (\<lambda>m3.
     bindE (model_attr pm_role ''role'' m3) (\<lambda>q1.
     bindE (getattr self4 ''pipelined_model'') (\<lambda>m4.
     bindE (model_attr pm_party_id ''party_id'' m4) (\<lambda>q2.
     bindE (getattr self4 ''pipelined_model'') (\<lambda>m5.
     bindE (model_attr pm_model_id ''_model_id'' m5) (\<lambda>q3.
     bindE (getattr self4 ''pipelined_model'') (\<lambda>m6.
     bindE (model_attr pm_model_version ''model_version'' m6) (\<lambda>q4.
     bindE (getattr self4 ''component_name'') (\<lambda>n.
     bindE (case n of Str c \<Rightarrow> Inr c | _ \<Rightarrow> Inl (TypeError ''component_name'')) (\<lambda>q5.
     let self5 = dict_set ''query_args'' (QueryArgs q1 q2 q3 q4 q5) self4 in
     bindE (getattr self5 ''component_storage_parameters'') (\<lambda>sp.
     bindE (lock_name sp) (\<lambda>l.
     Inr (dict_set ''lock'' (Lock l) self5)))))))))))))))))))"

definition SyncComponent_init ::
  "(string \<Rightarrow> string \<Rightarrow> error + pipelined_model) \<Rightarrow> (storage_class \<Rightarrow> cfg option \<Rightarrow> error + 'b) \<Rightarrow>
     string \<Rightarrow> string \<Rightarrow> string \<Rightarrow> interp \<Rightarrow> (error + (string \<times> 'b pyattr) list) \<times> interp" where
  "SyncComponent_init PipelinedModel new_storage party_model_id model_version component_name st =
     (case get_storage model_storage_map st of
        (Inl e, st1) \<Rightarrow> (Inl e, st1)
      | (Inr (storage, storage_address), st1) \<Rightarrow>
          (let kwargs = Some (objects st1 ! storage_address);
               st2 = st1\<lparr>constructed := constructed st1 @ [(storage, kwargs)]\<rparr>
           in case new_storage storage kwargs of
                Inl e \<Rightarrow> (Inl e, st2)
              | Inr b \<Rightarrow>
                  (SyncComponent_attributes PipelinedModel party_model_id model_version
                     component_name (dict_set ''component_storage'' (Backend b) []),
                   st2)))"

section \<open>sync\_model.py: SyncModel\<close>




text \<open>
  The storage backends are external: \<open>exists\<close>, \<open>store\<close> and \<open>restore\<close> are the
  operations of \<open>ModelStorageBase\<close> the source calls, acting on an environment \<open>'e\<close> (the
  blob store and the local cache) and free to raise.  The world of a \<open>SyncModel\<close> is that
  environment, the model table and a log of what was called, in order.
\<close>

type_synonym storage_parameters = "string \<times> string \<times> nat"

record 'e model_storage_ops =
  exists :: "storage_parameters \<Rightarrow> 'e \<Rightarrow> error + bool"
  store :: "bool \<Rightarrow> storage_parameters \<Rightarrow> 'e \<Rightarrow> (error + string) \<times> 'e"
  restore :: "bool \<Rightarrow> string option \<Rightarrow> storage_parameters \<Rightarrow> 'e \<Rightarrow> (error + unit) \<times> 'e"














section \<open>sync\_model.py: SyncComponent.get\_archive\_hash\<close>

text \<open>
  Modelled from the spec: the declaration of \<open>PipelineComponentMeta\<close> is not under
  \<open>src/\<close>.  Its columns are the metadata record fields of the spec, under the names the
  source uses for them, and the automatic row id; the two archive columns may be \<open>NULL\<close>.
  The JSON columns hold dictionaries of strings.
\<close>

record PipelineComponentMeta =
  row_id :: nat
  f_model_id :: string
  f_model_version :: string
  f_role :: string
  f_party_id :: string
  f_component_name :: string
  f_component_module_name :: string
  f_model_alias :: string
  f_model_proto_index :: "(string \<times> string) list"
  f_run_parameters :: "(string \<times> string) list"
  f_archive_sha256 :: "string option"
  f_archive_from_ip :: "string option"

text \<open>
  \<open>GROUP BY\<close> keeps one row for each distinct value of the grouping columns, in order of
  first occurrence.  Which row of a group supplies the other columns is up to the database;
  the source reads a grouping column only.
\<close>

fun group_by :: "('a \<Rightarrow> 'k) \<Rightarrow> 'a list \<Rightarrow> 'a list" where
  "group_by key [] = []"
| "group_by key (x # xs) = x # group_by key (filter (\<lambda>y. key y \<noteq> key x) xs)"

text \<open>
  The methods of \<open>SyncComponent\<close> read \<open>self.query_args\<close> and \<open>self.component_name\<close>;
  they are modelled on an instance that has these attributes with the values
  \<open>__init__\<close> means to give them: the full identity and the component name.
\<close>

record sync_component =
  sc_pipelined_model :: pipelined_model
  sc_component_name :: string

definition sc_query_args :: "sync_component \<Rightarrow> PipelineComponentMeta \<Rightarrow> bool" where
  "sc_query_args self row =
     (f_role row = pm_role (sc_pipelined_model self) \<and>
      f_party_id row = pm_party_id (sc_pipelined_model self) \<and>
      f_model_id row = pm_model_id (sc_pipelined_model self) \<and>
      f_model_version row = pm_model_version (sc_pipelined_model self) \<and>
      f_component_name row = sc_component_name self)"

definition archive_group :: "PipelineComponentMeta \<Rightarrow> string option \<times> string option" where
  "archive_group row = (f_archive_sha256 row, f_archive_from_ip row)"

definition invalid_define_meta :: "string \<Rightarrow> error" where
  "invalid_define_meta component_name =
     ValueError (''The define_meta data of '' @ component_name @ '' in database is invalid.'')"

definition get_archive_hash :: "sync_component \<Rightarrow> PipelineComponentMeta list \<Rightarrow> error + string option" where
  "get_archive_hash self table =
     (let query = group_by archive_group (filter (sc_query_args self) table)
      in if length query \<noteq> 1 then Inl (invalid_define_meta (sc_component_name self))
         else Inr (f_archive_sha256 (query ! 0)))"

section \<open>pipelined\_component.py: the local files\<close>

text \<open>
  The file tree below \<open>self.model_path\<close>: a node is a file with its bytes or a directory
  with its entries, in the order \<open>iterdir\<close> yields them.  Paths are the lists of their
  components, relative to the model path, as \<open>pathlib\<close> has them.  A model path that does
  not exist is the empty directory: \<open>iterdir\<close> is only called below it, and both
  \<open>mkdir(parents=True)\<close> and \<open>extractall\<close> create it.
\<close>

type_synonym bytes = "8 word list"

type_synonym path = "string list"

datatype fnode = File bytes | Dir "(string \<times> fnode) list"

fun lookup :: "path \<Rightarrow> fnode \<Rightarrow> fnode option" where
  "lookup [] n = Some n"
| "lookup (x # xs) (File b) = None"
| "lookup (x # xs) (Dir es) = (case map_of es x of None \<Rightarrow> None | Some c \<Rightarrow> lookup xs c)"

definition is_dir :: "path \<Rightarrow> fnode \<Rightarrow> bool" where
  "is_dir p root = (case lookup p root of Some (Dir es) \<Rightarrow> True | _ \<Rightarrow> False)"

definition is_file :: "path \<Rightarrow> fnode \<Rightarrow> bool" where
  "is_file p root = (case lookup p root of Some (File b) \<Rightarrow> True | _ \<Rightarrow> False)"

fun iterdir :: "path \<Rightarrow> fnode \<Rightarrow> error + (string \<times> fnode) list" where
  "iterdir [] (Dir es) = Inr es"
| "iterdir [] (File b) = Inl NotADirectoryError"
| "iterdir (x # xs) (File b) = Inl NotADirectoryError"
| "iterdir (x # xs) (Dir es) =
     (case map_of es x of None \<Rightarrow> Inl FileNotFoundError | Some c \<Rightarrow> iterdir xs c)"

fun read_bytes :: "path \<Rightarrow> fnode \<Rightarrow> error + bytes" where
  "read_bytes [] (File b) = Inr b"
| "read_bytes [] (Dir es) = Inl IsADirectoryError"
| "read_bytes (x # xs) (File b) = Inl NotADirectoryError"
| "read_bytes (x # xs) (Dir es) =
     (case map_of es x of None \<Rightarrow> Inl FileNotFoundError | Some c \<Rightarrow> read_bytes xs c)"

text \<open>
  \<open>makedirs\<close> is \<open>Path.mkdir(parents=True, exist_ok=True)\<close> and \<open>os.makedirs\<close> on a path
  that is not there yet: it creates what is missing and fails on a file in the way.
\<close>

fun makedirs :: "path \<Rightarrow> fnode \<Rightarrow> error + fnode" where
  "makedirs [] (Dir es) = Inr (Dir es)"
| "makedirs [] (File b) = Inl FileExistsError"
| "makedirs (x # xs) (File b) = Inl NotADirectoryError"
| "makedirs (x # xs) (Dir es) =
     (case makedirs xs (case map_of es x of None \<Rightarrow> Dir [] | Some c \<Rightarrow> c) of
        Inl e \<Rightarrow> Inl e
      | Inr c' \<Rightarrow> Inr (Dir (dict_set x c' es)))"

text \<open>
  Opening a file for writing and writing the bytes: mode \<open>'x'\<close> creates the file and
  fails if the path exists, mode \<open>'wb'\<close> creates or truncates it.  The parent directory
  must exist.
\<close>

datatype open_mode = Exclusive | Truncate

fun write_file :: "open_mode \<Rightarrow> path \<Rightarrow> bytes \<Rightarrow> fnode \<Rightarrow> error + fnode" where
  "write_file mode [] b (File old) = (if mode = Exclusive then Inl FileExistsError else Inr (File b))"
| "write_file mode [] b (Dir es) = (if mode = Exclusive then Inl FileExistsError else Inl IsADirectoryError)"
| "write_file mode (x # xs) b (File old) = Inl NotADirectoryError"
| "write_file mode (x # xs) b (Dir es) =
     (case map_of es x of
        None \<Rightarrow> if xs = [] then Inr (Dir (es @ [(x, File b)])) else Inl FileNotFoundError
      | Some c \<Rightarrow>
          (case write_file mode xs b c of
             Inl e \<Rightarrow> Inl e
           | Inr c' \<Rightarrow> Inr (Dir (dict_set x c' es))))"

section \<open>pipelined\_component.py: packing and unpacking a component\<close>

text \<open>
  The libraries are parameters: \<open>hashlib.sha256(...).hexdigest()\<close>, and the zip format as
  the bytes \<open>ZipFile(..., 'w')\<close> leaves in the file for a list of entries and the entries
  \<open>ZipFile(..., 'r')\<close> finds in some bytes (none when the bytes are not an archive).  An
  entry is a file with its name and bytes, or a directory.
\<close>

datatype zip_entry = ZFile path bytes | ZDir path

text \<open>
  The define-meta document as the source builds and reads it: \<open>component_define\<close> maps
  a component name to a dictionary with the key \<open>module_name\<close>, \<open>model_proto\<close> maps a
  component name to a dictionary from alias to proto index.  YAML and JSON are parameters
  too: what \<open>yaml.load\<close> and \<open>json_loads\<close> make of some bytes, and the bytes
  \<open>yaml.dump\<close> and \<open>json_dumps\<close> write.
\<close>

type_synonym json_object = "(string \<times> string) list"

record define_meta =
  component_define :: "(string \<times> (string \<times> string) list) list"
  model_proto :: "(string \<times> (string \<times> json_object) list) list"

record codecs =
  sha256_hexdigest :: "bytes \<Rightarrow> string"
  zip_bytes :: "zip_entry list \<Rightarrow> bytes"
  zip_entries :: "bytes \<Rightarrow> zip_entry list option"
  yaml_load :: "bytes \<Rightarrow> error + define_meta"
  yaml_dump :: "define_meta \<Rightarrow> bytes"
  json_loads :: "bytes \<Rightarrow> error + json_object"
  json_dumps :: "json_object \<Rightarrow> bytes"

record pipelined_component =
  role :: string
  party_id :: string
  model_id :: string
  party_model_id :: string
  model_version :: string

definition variables_data_path :: path where
  "variables_data_path = [''variables'', ''data'']"

definition checkpoint_path :: path where
  "checkpoint_path = [''checkpoint'']"

text \<open>
  \<open>TEMP_DIRECTORY\<close> is a directory outside the model path: whether it is there, and its
  files by their full name.  Where the directory is missing it has no file.
\<close>

record local_state =
  model_root :: fnode
  temp_directory :: "string \<rightharpoonup> bytes"
  temp_directory_exists :: bool

definition get_archive_path :: "string \<Rightarrow> pipelined_component \<Rightarrow> string \<Rightarrow> string" where
  "get_archive_path TEMP_DIRECTORY self component_name =
     TEMP_DIRECTORY @ ''/'' @ party_model_id self @ ''_'' @ model_version self @ ''_'' @
       component_name @ ''.zip''"

text \<open>
  \<open>walk_component\<close> runs over the entries of a directory; for each entry it either
  recurses (a directory) or writes the file into the archive under its path relative to
  the model path.  The entries written are returned in order.
\<close>

fun walk_component :: "path \<Rightarrow> (string \<times> fnode) list \<Rightarrow> zip_entry list"
  and walk_path :: "path \<Rightarrow> fnode \<Rightarrow> zip_entry list" where
  "walk_component dir_path [] = []"
| "walk_component dir_path (entry # rest) =
     walk_path (dir_path @ [fst entry]) (snd entry) @ walk_component dir_path rest"
| "walk_path p (Dir es) = walk_component p es"
| "walk_path p (File b) = [ZFile p b]"

text \<open>
  \<open>ZipFile(filename, 'w')\<close> opens the archive for writing, which raises
  \<open>FileNotFoundError\<close> when \<open>TEMP_DIRECTORY\<close> is missing, and otherwise creates the file
  at once; leaving the \<open>with\<close> block closes it also when the walk raises, so the file
  then holds the entries written so far.
\<close>

definition pack_component ::
  "codecs \<Rightarrow> string \<Rightarrow> pipelined_component \<Rightarrow> string \<Rightarrow> local_state \<Rightarrow>
     (error + string \<times> string) \<times> local_state" where
  "pack_component cd TEMP_DIRECTORY self component_name s =
     (let filename = get_archive_path TEMP_DIRECTORY self component_name in
      if \<not> temp_directory_exists s then (Inl FileNotFoundError, s)
      else
      case iterdir (variables_data_path @ [component_name]) (model_root s) of
        Inl e \<Rightarrow> (Inl e, s\<lparr>temp_directory := (temp_directory s)(filename \<mapsto> zip_bytes cd [])\<rparr>)
      | Inr es1 \<Rightarrow>
          (let z1 = walk_component (variables_data_path @ [component_name]) es1 in
           case iterdir (checkpoint_path @ [component_name]) (model_root s) of
             Inl e \<Rightarrow> (Inl e, s\<lparr>temp_directory := (temp_directory s)(filename \<mapsto> zip_bytes cd z1)\<rparr>)
           | Inr es2 \<Rightarrow>
               (let z2 = z1 @ walk_component (checkpoint_path @ [component_name]) es2;
                    s' = s\<lparr>temp_directory := (temp_directory s)(filename \<mapsto> zip_bytes cd z2)\<rparr>
                in case temp_directory s' filename of
                     None \<Rightarrow> (Inl FileNotFoundError, s')
                   | Some data \<Rightarrow> (Inr (filename, sha256_hexdigest cd data), s'))))"

text \<open>
  \<open>extractall\<close> extracts the members in order.  A member name loses the components
  \<open>''\<close>, \<open>.\<close> and \<open>..\<close>; missing parent directories are created; a file member is
  written in mode \<open>'wb'\<close>, a directory member is created unless it is there.  An error
  stops the extraction and leaves what was extracted before.
\<close>

definition sanitize :: "path \<Rightarrow> path" where
  "sanitize name = filter (\<lambda>x. x \<noteq> '''' \<and> x \<noteq> ''.'' \<and> x \<noteq> ''..'') name"

definition make_upperdirs :: "path \<Rightarrow> fnode \<Rightarrow> error + fnode" where
  "make_upperdirs target root =
     (if lookup (butlast target) root = None then makedirs (butlast target) root else Inr root)"

fun extract_member :: "zip_entry \<Rightarrow> fnode \<Rightarrow> (error + unit) \<times> fnode" where
  "extract_member (ZFile name b) root =
     (case make_upperdirs (sanitize name) root of
        Inl e \<Rightarrow> (Inl e, root)
      | Inr root1 \<Rightarrow>
          (case write_file Truncate (sanitize name) b root1 of
             Inl e \<Rightarrow> (Inl e, root1)
           | Inr root2 \<Rightarrow> (Inr (), root2)))"
| "extract_member (ZDir name) root =
     (case make_upperdirs (sanitize name) root of
        Inl e \<Rightarrow> (Inl e, root)
      | Inr root1 \<Rightarrow>
          (case makedirs (sanitize name) root1 of
             Inl e \<Rightarrow> (Inl e, root1)
           | Inr root2 \<Rightarrow> (Inr (), root2)))"

fun extractall :: "zip_entry list \<Rightarrow> fnode \<Rightarrow> (error + unit) \<times> fnode" where
  "extractall [] root = (Inr (), root)"
| "extractall (m # ms) root =
     (case extract_member m root of
        (Inl e, root') \<Rightarrow> (Inl e, root')
      | (Inr u, root') \<Rightarrow> extractall ms root')"

definition hash_mismatch :: "string \<Rightarrow> string \<Rightarrow> string \<Rightarrow> error" where
  "hash_mismatch filename expected actual =
     ValueError (''Model archive hash mismatch. path: '' @ filename @ '' expected: '' @ expected @
                 '' actual: '' @ actual)"

definition unpack_component ::
  "codecs \<Rightarrow> string \<Rightarrow> pipelined_component \<Rightarrow> string \<Rightarrow> string option \<Rightarrow> local_state \<Rightarrow>
     (error + unit) \<times> local_state" where
  "unpack_component cd TEMP_DIRECTORY self component_name hash s =
     (let filename = get_archive_path TEMP_DIRECTORY self component_name;
          checked =
            (case hash of
               None \<Rightarrow> Inr ()
             | Some h \<Rightarrow>
                 (case temp_directory s filename of
                    None \<Rightarrow> Inl FileNotFoundError
                  | Some data \<Rightarrow>
                      (let sha256 = sha256_hexdigest cd data
                       in if h \<noteq> sha256 then Inl (hash_mismatch filename h sha256) else Inr ())))
      in case checked of
           Inl e \<Rightarrow> (Inl e, s)
         | Inr u \<Rightarrow>
             (case temp_directory s filename of
                None \<Rightarrow> (Inl FileNotFoundError, s)
              | Some data \<Rightarrow>
                  (case zip_entries cd data of
                     None \<Rightarrow> (Inl BadZipFile, s)
                   | Some members \<Rightarrow>
                       (case extractall members (model_root s) of
                          (r, root') \<Rightarrow> (r, s\<lparr>model_root := root'\<rparr>)))))"

text \<open>
  What a tree holds at a path, for the statements about packing and unpacking: the bytes
  of the file there, if it is a file; and the kind of node there (nothing, a directory,
  or a file with its bytes).
\<close>

definition file_at :: "fnode \<Rightarrow> path \<Rightarrow> bytes option" where
  "file_at root p = (case lookup p root of Some (File b) \<Rightarrow> Some b | _ \<Rightarrow> None)"

definition kind :: "fnode \<Rightarrow> path \<Rightarrow> bytes option option" where
  "kind root p = (case lookup p root of None \<Rightarrow> None | Some (File b) \<Rightarrow> Some (Some b) | Some (Dir es) \<Rightarrow> Some None)"

text \<open>
  A well-formed tree, as a file system has it: the names in a directory are distinct, and
  none is empty, \<open>.\<close> or \<open>..\<close>.
\<close>

definition valid_name :: "string \<Rightarrow> bool" where
  "valid_name x = (x \<noteq> '''' \<and> x \<noteq> ''.'' \<and> x \<noteq> ''..'')"

fun wf_entries :: "(string \<times> fnode) list \<Rightarrow> bool"
  and wf_node :: "fnode \<Rightarrow> bool" where
  "wf_entries [] = True"
| "wf_entries (entry # rest) =
     (valid_name (fst entry) \<and> fst entry \<notin> fst ` set rest \<and> wf_node (snd entry) \<and> wf_entries rest)"
| "wf_node (File b) = True"
| "wf_node (Dir es) = wf_entries es"

text \<open>
  The paths of a component are those below \<open>variables/data/<component>\<close> and
  \<open>checkpoint/<component>\<close>; \<open>archived_entries\<close> is what the two walks of
  \<open>pack_component\<close> write when both directories are there.  A tree is a \<open>subtree\<close> of
  another when everything in it is in the other, as the same kind of node.
\<close>

definition in_component :: "string \<Rightarrow> path \<Rightarrow> bool" where
  "in_component component_name p =
     (prefix (variables_data_path @ [component_name]) p \<or>
      prefix (checkpoint_path @ [component_name]) p)"

definition archived_entries :: "string \<Rightarrow> fnode \<Rightarrow> zip_entry list" where
  "archived_entries component_name root =
     (case iterdir (variables_data_path @ [component_name]) root of
        Inl e \<Rightarrow> []
      | Inr es1 \<Rightarrow>
          (case iterdir (checkpoint_path @ [component_name]) root of
             Inl e \<Rightarrow> []
           | Inr es2 \<Rightarrow>
               walk_component (variables_data_path @ [component_name]) es1 @
               walk_component (checkpoint_path @ [component_name]) es2))"

definition subtree :: "fnode \<Rightarrow> fnode \<Rightarrow> bool" where
  "subtree t src = (\<forall>q k. kind t q = Some k \<longrightarrow> kind src q = Some k)"

section \<open>pipelined\_component.py: define-meta in the database and in files\<close>

definition define_meta_path :: path where
  "define_meta_path = [''define'', ''define_meta.yaml'']"

definition run_parameters_path :: path where
  "run_parameters_path = [''run_parameters'']"

definition get_run_parameters_path :: "string \<Rightarrow> path" where
  "get_run_parameters_path component_name = run_parameters_path @ [component_name, ''run_parameters.json'']"

definition query_args :: "pipelined_component \<Rightarrow> PipelineComponentMeta \<Rightarrow> bool" where
  "query_args self row =
     (f_model_id row = model_id self \<and> f_model_version row = model_version self \<and>
      f_role row = role self \<and> f_party_id row = party_id self)"

text \<open>
  A query returns the matching rows in table order; the additional conditions of a
  caller are predicates on a row.
\<close>

definition get_define_meta_from_db ::
  "pipelined_component \<Rightarrow> (PipelineComponentMeta \<Rightarrow> bool) list \<Rightarrow> PipelineComponentMeta list \<Rightarrow>
     PipelineComponentMeta list" where
  "get_define_meta_from_db self extra_args table =
     filter (\<lambda>row. query_args self row \<and> (\<forall>cond \<in> set extra_args. cond row)) table"

definition get_define_meta_from_file :: "codecs \<Rightarrow> fnode \<Rightarrow> error + define_meta" where
  "get_define_meta_from_file cd root = bindE (read_bytes define_meta_path root) (yaml_load cd)"

definition rearrange_row :: "define_meta \<Rightarrow> PipelineComponentMeta \<Rightarrow> define_meta" where
  "rearrange_row dm row =
     (let cdef = dict_set (f_component_name row)
                   [(''module_name'', f_component_module_name row)] (component_define dm);
          proto = (if f_component_name row \<notin> fst ` set (model_proto dm)
                   then dict_set (f_component_name row) [] (model_proto dm)
                   else model_proto dm);
          aliases = (case map_of proto (f_component_name row) of None \<Rightarrow> [] | Some a \<Rightarrow> a)
      in \<lparr>component_define = cdef,
          model_proto = dict_set (f_component_name row)
                          (dict_set (f_model_alias row) (f_model_proto_index row) aliases) proto\<rparr>)"

definition rearrange_define_meta :: "PipelineComponentMeta list \<Rightarrow> define_meta" where
  "rearrange_define_meta data = foldl rearrange_row \<lparr>component_define = [], model_proto = []\<rparr> data"


text \<open>
  The dictionaries handed to the database and taken from a row hold cells: a text, a JSON
  object, a number, or \<open>NULL\<close>.
\<close>

datatype cell = Null | Number nat | Text string | Json json_object

definition column_labels :: "string list" where
  "column_labels =
     [''model_id'', ''model_version'', ''role'', ''party_id'', ''component_name'',
      ''component_module_name'', ''model_alias'', ''model_proto_index'', ''run_parameters'',
      ''archive_sha256'', ''archive_from_ip'']"

definition nullable :: "string option \<Rightarrow> cell" where
  "nullable v = (case v of None \<Rightarrow> Null | Some s \<Rightarrow> Text s)"

definition cell_of :: "PipelineComponentMeta \<Rightarrow> string \<Rightarrow> cell" where
  "cell_of row label =
     (if label = ''model_id'' then Text (f_model_id row)
      else if label = ''model_version'' then Text (f_model_version row)
      else if label = ''role'' then Text (f_role row)
      else if label = ''party_id'' then Text (f_party_id row)
      else if label = ''component_name'' then Text (f_component_name row)
      else if label = ''component_module_name'' then Text (f_component_module_name row)
      else if label = ''model_alias'' then Text (f_model_alias row)
      else if label = ''model_proto_index'' then Json (f_model_proto_index row)
      else if label = ''run_parameters'' then Json (f_run_parameters row)
      else if label = ''archive_sha256'' then nullable (f_archive_sha256 row)
      else if label = ''archive_from_ip'' then nullable (f_archive_from_ip row)
      else Null)"

text \<open>
  Modelled from the spec: \<open>to_dict\<close> (the row class) and \<open>bulk_insert_into_db\<close>
  (\<open>fate_flow.db.db_utils\<close>) are not under \<open>src/\<close>.  \<open>to_dict\<close> gives the row id under
  \<open>id\<close> and every field of the record under its field name, the label with the prefix
  \<open>f_\<close>, as the source expects when it deletes \<open>id\<close> and strips that prefix.  For the
  insertion the spec has \<open>insert([Record])\<close>: each dictionary becomes one new row with
  the next id, appended to the table.  A dictionary is a record when its keys are field
  names, as \<open>save_define_meta\<close> and \<open>save_define_meta_from_file_to_db\<close> write them, and
  every field but the two archive fields, which default to \<open>NULL\<close>, has a cell of its
  type.  When a dictionary is not a record, nothing is inserted.
\<close>

definition to_dict :: "PipelineComponentMeta \<Rightarrow> (string \<times> cell) list" where
  "to_dict row = (''id'', Number (row_id row)) # map (\<lambda>l. (''f_'' @ l, cell_of row l)) column_labels"

definition field_names :: "string list" where
  "field_names = map (\<lambda>l. ''f_'' @ l) column_labels"

definition column :: "(string \<times> cell) list \<Rightarrow> string \<Rightarrow> cell" where
  "column d label = (case map_of d (''f_'' @ label) of None \<Rightarrow> Null | Some v \<Rightarrow> v)"

definition text_column :: "(string \<times> cell) list \<Rightarrow> string \<Rightarrow> error + string" where
  "text_column d label = (case column d label of Text s \<Rightarrow> Inr s | _ \<Rightarrow> Inl (IntegrityError label))"

definition json_column :: "(string \<times> cell) list \<Rightarrow> string \<Rightarrow> error + json_object" where
  "json_column d label = (case column d label of Json j \<Rightarrow> Inr j | _ \<Rightarrow> Inl (IntegrityError label))"

definition null_column :: "(string \<times> cell) list \<Rightarrow> string \<Rightarrow> error + string option" where
  "null_column d label =
     (case column d label of
        Text s \<Rightarrow> Inr (Some s)
      | Null \<Rightarrow> Inr None
      | _ \<Rightarrow> Inl (IntegrityError label))"

definition known_fields :: "(string \<times> cell) list \<Rightarrow> error + unit" where
  "known_fields d =
     (case filter (\<lambda>key. key \<notin> set field_names) (map fst d) of
        [] \<Rightarrow> Inr ()
      | key # others \<Rightarrow> Inl (IntegrityError key))"

definition row_of_dict :: "nat \<Rightarrow> (string \<times> cell) list \<Rightarrow> error + PipelineComponentMeta" where
  "row_of_dict n d =
     bindE (known_fields d) (\<lambda>u.
     bindE (text_column d ''model_id'') (\<lambda>c1.
     bindE (text_column d ''model_version'') (\<lambda>c2.
     bindE (text_column d ''role'') (\<lambda>c3.
     bindE (text_column d ''party_id'') (\<lambda>c4.
     bindE (text_column d ''component_name'') (\<lambda>c5.
     bindE (text_column d ''component_module_name'') (\<lambda>c6.
     bindE (text_column d ''model_alias'') (\<lambda>c7.
     bindE (json_column d ''model_proto_index'') (\<lambda>c8.
     bindE (json_column d ''run_parameters'') (\<lambda>c9.
     bindE (null_column d ''archive_sha256'') (\<lambda>c10.
     bindE (null_column d ''archive_from_ip'') (\<lambda>c11.
     Inr \<lparr>row_id = n, f_model_id = c1, f_model_version = c2, f_role = c3, f_party_id = c4,
          f_component_name = c5, f_component_module_name = c6, f_model_alias = c7,
          f_model_proto_index = c8, f_run_parameters = c9,
          f_archive_sha256 = c10, f_archive_from_ip = c11\<rparr>))))))))))))"

definition next_id :: "PipelineComponentMeta list \<Rightarrow> nat" where
  "next_id table = Suc (foldl max 0 (map row_id table))"

fun rows_of_dicts :: "nat \<Rightarrow> (string \<times> cell) list list \<Rightarrow> error + PipelineComponentMeta list" where
  "rows_of_dicts n [] = Inr []"
| "rows_of_dicts n (d # ds) =
     bindE (row_of_dict n d) (\<lambda>r. bindE (rows_of_dicts (Suc n) ds) (\<lambda>rs. Inr (r # rs)))"

definition bulk_insert_into_db ::
  "(string \<times> cell) list list \<Rightarrow> PipelineComponentMeta list \<Rightarrow> (error + unit) \<times> PipelineComponentMeta list" where
  "bulk_insert_into_db data_source table =
     (case rows_of_dicts (next_id table) data_source of
        Inl e \<Rightarrow> (Inl e, table)
      | Inr rows \<Rightarrow> (Inr (), table @ rows))"

text \<open>
  \<open>get_run_parameters_from_files\<close> reads \<open>run_parameters.json\<close> below every entry of the
  run-parameters directory, and gives the empty dictionary when the directory is not
  there.
\<close>

fun read_run_parameters :: "codecs \<Rightarrow> fnode \<Rightarrow> (string \<times> fnode) list \<Rightarrow> error + (string \<times> json_object) list" where
  "read_run_parameters cd root [] = Inr []"
| "read_run_parameters cd root (entry # rest) =
     bindE (read_bytes (get_run_parameters_path (fst entry)) root) (\<lambda>content.
     bindE (json_loads cd content) (\<lambda>params.
     bindE (read_run_parameters cd root rest) (\<lambda>others.
     Inr ((fst entry, params) # others))))"

definition get_run_parameters_from_files :: "codecs \<Rightarrow> fnode \<Rightarrow> error + (string \<times> json_object) list" where
  "get_run_parameters_from_files cd root =
     (if \<not> is_dir run_parameters_path root then Inr []
      else bindE (iterdir run_parameters_path root) (read_run_parameters cd root))"

text \<open>
  \<open>save_define_meta_from_file_to_db\<close>: the rows to insert, one for each component of
  \<open>component_define\<close> and each alias of that component in \<open>model_proto\<close>.  A component
  missing from \<open>model_proto\<close>, or a definition without \<open>module_name\<close>, is a \<open>KeyError\<close>.
\<close>

definition define_meta_row ::
  "pipelined_component \<Rightarrow> json_object \<Rightarrow> string \<Rightarrow> string \<Rightarrow> string \<times> json_object \<Rightarrow>
     (string \<times> cell) list" where
  "define_meta_row self params component_name module_name alias =
     [(''f_model_id'', Text (model_id self)),
      (''f_model_version'', Text (model_version self)),
      (''f_role'', Text (role self)),
      (''f_party_id'', Text (party_id self)),
      (''f_component_name'', Text component_name),
      (''f_component_module_name'', Text module_name),
      (''f_model_alias'', Text (fst alias)),
      (''f_model_proto_index'', Json (snd alias)),
      (''f_run_parameters'', Json params)]"

fun alias_rows ::
  "pipelined_component \<Rightarrow> json_object \<Rightarrow> string \<Rightarrow> (string \<times> string) list \<Rightarrow>
     (string \<times> json_object) list \<Rightarrow> error + (string \<times> cell) list list" where
  "alias_rows self params component_name component_def [] = Inr []"
| "alias_rows self params component_name component_def (alias # rest) =
     (case map_of component_def ''module_name'' of
        None \<Rightarrow> Inl (KeyError ''module_name'')
      | Some module_name \<Rightarrow>
          bindE (alias_rows self params component_name component_def rest) (\<lambda>rows.
          Inr (define_meta_row self params component_name module_name alias # rows)))"

fun component_rows ::
  "pipelined_component \<Rightarrow> define_meta \<Rightarrow> (string \<times> json_object) list \<Rightarrow>
     (string \<times> (string \<times> string) list) list \<Rightarrow> error + (string \<times> cell) list list" where
  "component_rows self dm run_parameters [] = Inr []"
| "component_rows self dm run_parameters (component # rest) =
     (case map_of (model_proto dm) (fst component) of
        None \<Rightarrow> Inl (KeyError (fst component))
      | Some aliases \<Rightarrow>
          bindE (alias_rows self
                   (case map_of run_parameters (fst component) of None \<Rightarrow> [] | Some p \<Rightarrow> p)
                   (fst component) (snd component) aliases) (\<lambda>rows.
          bindE (component_rows self dm run_parameters rest) (\<lambda>others.
          Inr (rows @ others))))"

definition already_exists :: error where
  "already_exists = ValueError ''The define_meta data already exists in database.''"

definition save_define_meta_from_file_to_db ::
  "codecs \<Rightarrow> pipelined_component \<Rightarrow> PipelineComponentMeta list \<Rightarrow> fnode \<Rightarrow>
     (error + unit) \<times> PipelineComponentMeta list" where
  "save_define_meta_from_file_to_db cd self table root =
     (let count = length (filter (query_args self) table)
      in if count > 0 then (Inl already_exists, table)
         else
           (case get_define_meta_from_file cd root of
              Inl e \<Rightarrow> (Inl e, table)
            | Inr dm \<Rightarrow>
                (case get_run_parameters_from_files cd root of
                   Inl e \<Rightarrow> (Inl e, table)
                 | Inr run_parameters \<Rightarrow>
                     (case component_rows self dm run_parameters (component_define dm) of
                        Inl e \<Rightarrow> (Inl e, table)
                      | Inr insert_rows \<Rightarrow> bulk_insert_into_db insert_rows table))))"

text \<open>
  \<open>save_define_meta_from_db_to_file\<close> writes one run-parameters file for each row and
  then the define-meta file, each opened in mode \<open>'x'\<close>; an open file is closed when its
  \<open>with\<close> block is left, also by an exception, and exists from then on.  The source reads
  the attribute \<open>run_parameters\<close> of a row where every other place reads
  \<open>f_run_parameters\<close>; what that attribute is depends on the row class, which is not under
  \<open>src/\<close>, so the attribute is a parameter.
\<close>

fun write_run_parameters ::
  "codecs \<Rightarrow> (PipelineComponentMeta \<Rightarrow> error + json_object) \<Rightarrow> PipelineComponentMeta list \<Rightarrow> fnode \<Rightarrow>
     (error + unit) \<times> fnode" where
  "write_run_parameters cd run_parameters [] root = (Inr (), root)"
| "write_run_parameters cd run_parameters (row # rows) root =
     (case makedirs (butlast (get_run_parameters_path (f_component_name row))) root of
        Inl e \<Rightarrow> (Inl e, root)
      | Inr root1 \<Rightarrow>
          (case write_file Exclusive (get_run_parameters_path (f_component_name row)) [] root1 of
             Inl e \<Rightarrow> (Inl e, root1)
           | Inr root2 \<Rightarrow>
               (case run_parameters row of
                  Inl e \<Rightarrow> (Inl e, root2)
                | Inr params \<Rightarrow>
                    (case write_file Truncate (get_run_parameters_path (f_component_name row))
                            (json_dumps cd params) root2 of
                       Inl e \<Rightarrow> (Inl e, root2)
                     | Inr root3 \<Rightarrow> write_run_parameters cd run_parameters rows root3))))"

definition no_define_meta :: error where
  "no_define_meta = ValueError ''No define_meta data in database.''"

definition save_define_meta_from_db_to_file ::
  "codecs \<Rightarrow> (PipelineComponentMeta \<Rightarrow> error + json_object) \<Rightarrow> pipelined_component \<Rightarrow>
     PipelineComponentMeta list \<Rightarrow> fnode \<Rightarrow> (error + unit) \<times> fnode" where
  "save_define_meta_from_db_to_file cd run_parameters self table root =
     (let query = get_define_meta_from_db self [] table
      in if query = [] then (Inl no_define_meta, root)
         else
           (case write_run_parameters cd run_parameters query root of
              (Inl e, root1) \<Rightarrow> (Inl e, root1)
            | (Inr u, root1) \<Rightarrow>
                (case makedirs (butlast define_meta_path) root1 of
                   Inl e \<Rightarrow> (Inl e, root1)
                 | Inr root2 \<Rightarrow>
                     (case write_file Exclusive define_meta_path [] root2 of
                        Inl e \<Rightarrow> (Inl e, root2)
                      | Inr root3 \<Rightarrow>
                          (case write_file Truncate define_meta_path
                                  (yaml_dump cd (rearrange_define_meta query)) root3 of
                             Inl e \<Rightarrow> (Inl e, root3)
                           | Inr root4 \<Rightarrow> (Inr (), root4))))))"

text \<open>
  \<open>replicate_define_meta\<close>: \<open>query_args\<close> defaults to \<open>None\<close>, which cannot be unpacked
  into arguments.  Every matched row becomes a dictionary without \<open>id\<close>, its keys
  stripped of the prefix, updated with the modification.
\<close>

definition strip_prefix :: "string \<Rightarrow> string" where
  "strip_prefix key = (if take 2 key = ''f_'' then drop 2 key else key)"

definition not_found :: error where
  "not_found = ValueError ''Filtered define_meta data not found.''"

definition replica :: "(string \<times> cell) list \<Rightarrow> PipelineComponentMeta \<Rightarrow> error + (string \<times> cell) list" where
  "replica modification row =
     bindE (dict_pop ''id'' (to_dict row)) (\<lambda>popped.
     Inr (dict_update
            (dict_update []
               (map (\<lambda>kv. (strip_prefix (fst kv), snd kv))
                  (filter (\<lambda>kv. fst kv \<noteq> ''id'') (snd popped))))
            modification))"

fun replicas :: "(string \<times> cell) list \<Rightarrow> PipelineComponentMeta list \<Rightarrow> error + (string \<times> cell) list list" where
  "replicas modification [] = Inr []"
| "replicas modification (row # rows) =
     bindE (replica modification row) (\<lambda>d. bindE (replicas modification rows) (\<lambda>ds. Inr (d # ds)))"

definition replicate_define_meta ::
  "pipelined_component \<Rightarrow> (string \<times> cell) list \<Rightarrow> (PipelineComponentMeta \<Rightarrow> bool) list option \<Rightarrow>
     PipelineComponentMeta list \<Rightarrow> (error + unit) \<times> PipelineComponentMeta list" where
  "replicate_define_meta self modification extra_args table =
     (case extra_args of
        None \<Rightarrow> (Inl (TypeError ''argument after * must be an iterable, not NoneType''), table)
      | Some args \<Rightarrow>
          (let query = get_define_meta_from_db self args table
           in if query = [] then (Inl not_found, table)
              else
                (case replicas modification query of
                   Inl e \<Rightarrow> (Inl e, table)
                 | Inr insert_rows \<Rightarrow> bulk_insert_into_db insert_rows table)))"

text \<open>
  A tree \<open>keeps\<close> another when everything that was in the other is still there, a file
  with the same bytes and a directory as a directory.
\<close>

definition keeps :: "fnode \<Rightarrow> fnode \<Rightarrow> bool" where
  "keeps root' root = (\<forall>q. kind root q \<noteq> None \<longrightarrow> kind root' q = kind root q)"



section \<open>Example inputs\<close>

definition registry_example :: "string \<Rightarrow> interp" where
  "registry_example name =
     \<lparr>objects = [CDict [(''storage'', CStr name), (''host'', CStr ''10.0.0.7'')]],
      MODEL_STORE_ADDRESS = 0,
      constructed = []\<rparr>"



definition example_pm :: pipelined_model where
  "example_pm =
     \<lparr>pm_role = ''guest'', pm_party_id = ''9999'', pm_model_id = ''m'',
      pm_model_version = ''v1'', pm_party_model_id = ''guest#9999#m''\<rparr>"




definition example_row :: "nat \<Rightarrow> string \<Rightarrow> string \<Rightarrow> string option \<Rightarrow> PipelineComponentMeta" where
  "example_row n component alias sha =
     \<lparr>row_id = n, f_model_id = ''m'', f_model_version = ''v1'', f_role = ''guest'',
      f_party_id = ''9999'', f_component_name = component,
      f_component_module_name = ''HeteroLR'', f_model_alias = alias,
      f_model_proto_index = [(''HeteroLRParam'', ''LRModelParam'')],
      f_run_parameters = [(''max_iter'', ''10'')],
      f_archive_sha256 = sha, f_archive_from_ip = Some ''hostA''\<rparr>"

definition example_component :: sync_component where
  "example_component = \<lparr>sc_pipelined_model = example_pm, sc_component_name = ''hetero_lr_0''\<rparr>"

definition example_root :: fnode where
  "example_root =
     Dir [(''variables'',
           Dir [(''data'',
                 Dir [(''fe_0'',
                       Dir [(''default'', Dir [(''Meta'', File [1, 2]), (''Param'', File [3])]),
                            (''v2'', Dir [(''Meta'', File [4])])])])]),
          (''checkpoint'', Dir [(''fe_0'', Dir [(''step1'', File [9])])]),
          (''define'', Dir [(''define_meta.yaml'', File [7])])]"

definition example_entries :: "zip_entry list" where
  "example_entries =
     [ZFile [''variables'', ''data'', ''fe_0'', ''default'', ''Meta''] [1, 2],
      ZFile [''variables'', ''data'', ''fe_0'', ''default'', ''Param''] [3],
      ZFile [''variables'', ''data'', ''fe_0'', ''v2'', ''Meta''] [4],
      ZFile [''checkpoint'', ''fe_0'', ''step1''] [9]]"

definition sparse_root :: fnode where
  "sparse_root =
     Dir [(''variables'',
           Dir [(''data'',
                 Dir [(''fe_0'', Dir [(''default'', Dir [(''Meta'', File [1, 2])]), (''v2'', Dir [])])])]),
          (''checkpoint'', Dir [(''fe_0'', Dir [])])]"

definition sparse_entries :: "zip_entry list" where
  "sparse_entries = [ZFile [''variables'', ''data'', ''fe_0'', ''default'', ''Meta''] [1, 2]]"

definition example_define_meta :: define_meta where
  "example_define_meta =
     \<lparr>component_define = [(''fe_0'', [(''module_name'', ''FeatureEngineering'')]),
                           (''hetero_lr_0'', [(''module_name'', ''HeteroLR'')])],
      model_proto = [(''hetero_lr_0'', [(''default'', [(''HeteroLRParam'', ''LRModelParam'')])]),
                     (''fe_0'', [(''default'', [(''Meta'', ''FeMeta''), (''Param'', ''FeParam'')]),
                                (''v2'', [(''Meta'', ''FeMeta'')])])]\<rparr>"

definition degenerate_define_meta :: define_meta where
  "degenerate_define_meta =
     \<lparr>component_define = [(''fe_0'', [(''module_name'', ''FeatureEngineering'')])],
      model_proto = [(''fe_0'', [])]\<rparr>"

definition example_codecs :: codecs where
  "example_codecs =
     \<lparr>sha256_hexdigest = (\<lambda>b. if b = [80, 75, 4] then ''c0ffee'' else ''0000''),
      zip_bytes = (\<lambda>ms. [80, 75, of_nat (length ms)]),
      zip_entries = (\<lambda>b. if b = [80, 75, 4] then Some example_entries
                          else if b = [80, 75, 1] then Some sparse_entries else None),
      yaml_load = (\<lambda>b. if b = [7] then Inr example_define_meta
                        else if b = [8] then Inr degenerate_define_meta
                        else Inl (ExternalError ''yaml'')),
      yaml_dump = (\<lambda>d. if d = example_define_meta then [7] else [8]),
      json_loads = (\<lambda>b. if b = [123, 125] then Inr [] else Inr [(''max_iter'', ''10'')]),
      json_dumps = (\<lambda>j. if j = [] then [123, 125] else [123, 49, 125])\<rparr>"

definition example_self :: pipelined_component where
  "example_self =
     \<lparr>role = ''guest'', party_id = ''9999'', model_id = ''m'',
      party_model_id = ''guest#9999#m'', model_version = ''v1''\<rparr>"

definition example_source :: local_state where
  "example_source = \<lparr>model_root = example_root, temp_directory = Map.empty, temp_directory_exists = True\<rparr>"

definition example_destination :: local_state where
  "example_destination =
     \<lparr>model_root = Dir [],
      temp_directory = [''/tmp/guest#9999#m_v1_fe_0.zip'' \<mapsto> [80, 75, 4]],
      temp_directory_exists = True\<rparr>"

definition variables_only_source :: local_state where
  "variables_only_source =
     \<lparr>model_root =
        Dir [(''variables'', Dir [(''data'', Dir [(''fe_0'', Dir [(''Meta'', File [1, 2])])])])],
      temp_directory = Map.empty,
      temp_directory_exists = True\<rparr>"

definition sparse_source :: local_state where
  "sparse_source =
     \<lparr>model_root = sparse_root, temp_directory = Map.empty, temp_directory_exists = True\<rparr>"

definition sparse_destination :: local_state where
  "sparse_destination =
     \<lparr>model_root = Dir [],
      temp_directory =
        temp_directory (snd (pack_component example_codecs ''/tmp'' example_self ''fe_0'' sparse_source)),
      temp_directory_exists = True\<rparr>"

definition example_table :: "PipelineComponentMeta list" where
  "example_table =
     [example_row 1 ''hetero_lr_0'' ''default'' (Some ''abc''),
      example_row 2 ''reader_0'' ''default'' None]"


section \<open>Properties of sync\_model.py\<close>

lemma get_storage_frame:
  assumes "valid_interp st"
  shows "take (length (objects st)) (objects (snd (get_storage m st))) = objects st \<and>
         MODEL_STORE_ADDRESS (snd (get_storage m st)) = MODEL_STORE_ADDRESS st \<and>
         constructed (snd (get_storage m st)) = constructed st"
  using assms
  by (auto simp: get_storage_def deepcopy_def valid_interp_def dict_pop_def Let_def
           split: cfg.splits sum.splits option.splits prod.splits)

lemma get_storage_result:
  assumes "valid_interp st"
    and "objects st ! MODEL_STORE_ADDRESS st = CDict d"
    and "map_of d ''storage'' = Some (CStr s)"
  shows "get_storage m st =
           ((case map_of m s of
               None \<Rightarrow> Inl (unsupported s)
             | Some c \<Rightarrow> Inr (c, length (objects st))),
            st\<lparr>objects := objects st @ [CDict (dict_del ''storage'' d)]\<rparr>)"
  using assms
  by (simp add: get_storage_def deepcopy_def valid_interp_def dict_pop_def Let_def nth_append
           split: option.splits)

text \<open>
  Claim C10.  \<open>get_storage\<close> works on a deep copy of the registered store address: every
  object that existed before the call, the registry's own dictionary with its
  \<open>storage\<close> key included, is unchanged afterwards, and the registry still refers to it;
  the key is removed from the copy only.  When the configured name is not a key of the
  storage map the call raises the error for the unsupported backend, no backend having been
  constructed (neither by \<open>get_storage\<close> nor by \<open>SyncModel.__init__\<close>, which fails with
  the same error); a registered name yields its class together with the reference to the
  copy, which holds the remaining address fields.
\<close>

theorem get_storage_deep_copy:
  assumes "valid_interp st"
  shows "take (length (objects st)) (objects (snd (get_storage storage_map st))) = objects st \<and>
         objects (snd (get_storage storage_map st)) ! MODEL_STORE_ADDRESS st =
           objects st ! MODEL_STORE_ADDRESS st \<and>
         MODEL_STORE_ADDRESS (snd (get_storage storage_map st)) = MODEL_STORE_ADDRESS st \<and>
         constructed (snd (get_storage storage_map st)) = constructed st \<and>
         (\<forall>d s. objects st ! MODEL_STORE_ADDRESS st = CDict d \<longrightarrow>
                 map_of d ''storage'' = Some (CStr s) \<longrightarrow>
              fst (get_storage storage_map st) =
                (case map_of storage_map s of
                   None \<Rightarrow> Inl (unsupported s)
                 | Some c \<Rightarrow> Inr (c, length (objects st))) \<and>
              length (objects st) \<noteq> MODEL_STORE_ADDRESS st \<and>
              objects (snd (get_storage storage_map st)) ! length (objects st) =
                CDict (dict_del ''storage'' d) \<and>
              (map_of model_storage_map s = None \<longrightarrow>
                 fst (SyncModel_init PipelinedModel new_storage pmid version st) =
                   (case PipelinedModel pmid version of
                      Inl e \<Rightarrow> Inl e | Inr pm \<Rightarrow> Inl (unsupported s)) \<and>
                 constructed (snd (SyncModel_init PipelinedModel new_storage pmid
                                     version st)) = constructed st))"
proof -
  have frame: "take (length (objects st)) (objects (snd (get_storage storage_map st))) = objects st"
    "MODEL_STORE_ADDRESS (snd (get_storage storage_map st)) = MODEL_STORE_ADDRESS st"
    "constructed (snd (get_storage storage_map st)) = constructed st"
    using get_storage_frame [OF assms, of storage_map] by simp_all
  have same: "objects (snd (get_storage storage_map st)) ! MODEL_STORE_ADDRESS st =
                objects st ! MODEL_STORE_ADDRESS st"
  proof -
    have "take (length (objects st)) (objects (snd (get_storage storage_map st))) ! MODEL_STORE_ADDRESS st
            = objects (snd (get_storage storage_map st)) ! MODEL_STORE_ADDRESS st"
      using assms by (simp add: valid_interp_def)
    then show ?thesis by (simp add: frame(1))
  qed
  have rest: "fst (get_storage storage_map st) =
                (case map_of storage_map s of
                   None \<Rightarrow> Inl (unsupported s)
                 | Some c \<Rightarrow> Inr (c, length (objects st))) \<and>
              length (objects st) \<noteq> MODEL_STORE_ADDRESS st \<and>
              objects (snd (get_storage storage_map st)) ! length (objects st) =
                CDict (dict_del ''storage'' d) \<and>
              (map_of model_storage_map s = None \<longrightarrow>
                 fst (SyncModel_init PipelinedModel new_storage pmid version st) =
                   (case PipelinedModel pmid version of
                      Inl e \<Rightarrow> Inl e | Inr pm \<Rightarrow> Inl (unsupported s)) \<and>
                 constructed (snd (SyncModel_init PipelinedModel new_storage pmid
                                     version st)) = constructed st)"
    if d: "objects st ! MODEL_STORE_ADDRESS st = CDict d" and s: "map_of d ''storage'' = Some (CStr s)"
    for d s
  proof -
    note r = get_storage_result [OF assms d s]
    have "length (objects st) \<noteq> MODEL_STORE_ADDRESS st"
      using assms by (simp add: valid_interp_def)
    moreover have "map_of model_storage_map s = None \<Longrightarrow>
        SyncModel_init PipelinedModel new_storage pmid version st =
          (case PipelinedModel pmid version of
             Inl e \<Rightarrow> (Inl e, st)
           | Inr pm \<Rightarrow> (Inl (unsupported s), st\<lparr>objects := objects st @ [CDict (dict_del ''storage'' d)]\<rparr>))"
      by (simp add: SyncModel_init_def r split: sum.splits)
    ultimately show ?thesis
      by (simp add: r split: sum.splits)
  qed
  show ?thesis
    using frame same rest by blast
qed

theorem get_storage_deep_copy_witness:
  "valid_interp (registry_example ''mysql'') \<and>
   get_storage component_storage_map (registry_example ''mysql'') =
     (Inr (MysqlComponentStorage, 1),
      \<lparr>objects = [CDict [(''storage'', CStr ''mysql''), (''host'', CStr ''10.0.0.7'')],
                  CDict [(''host'', CStr ''10.0.0.7'')]],
       MODEL_STORE_ADDRESS = 0, constructed = []\<rparr>) \<and>
   valid_interp (registry_example ''hdfs'') \<and>
   fst (get_storage model_storage_map (registry_example ''hdfs'')) = Inl (unsupported ''hdfs'') \<and>
   objects (snd (get_storage model_storage_map (registry_example ''hdfs''))) ! 0 =
     CDict [(''storage'', CStr ''hdfs''), (''host'', CStr ''10.0.0.7'')] \<and>
   SyncModel_init (\<lambda>a b. Inr \<lparr>pm_role = ''guest'', pm_party_id = ''9999'', pm_model_id = ''m'',
                               pm_model_version = b, pm_party_model_id = a\<rparr>)
      (\<lambda>c k. Inr c) ''guest#9999#m'' ''v1'' (registry_example ''hdfs'') =
     (Inl (unsupported ''hdfs''),
      \<lparr>objects = [CDict [(''storage'', CStr ''hdfs''), (''host'', CStr ''10.0.0.7'')],
                  CDict [(''host'', CStr ''10.0.0.7'')]],
       MODEL_STORE_ADDRESS = 0, constructed = []\<rparr>)"
proof -
  have v1: "valid_interp (registry_example ''mysql'')" and v2: "valid_interp (registry_example ''hdfs'')"
    by (simp_all add: valid_interp_def registry_example_def)
  show ?thesis
    using v1 v2
      get_storage_deep_copy [OF v1, of component_storage_map]
      get_storage_deep_copy [OF v2, of model_storage_map]
    by (simp add: registry_example_def get_storage_def deepcopy_def dict_pop_def dict_del_def
          model_storage_map_def component_storage_map_def SyncModel_init_def unsupported_def)
qed

text \<open>
  Claim C4.  Constructing a \<open>SyncComponent\<close> never succeeds, whatever the arguments, the
  configuration and the behaviour of the external constructors: when the backend has been
  chosen and constructed, \<open>__init__\<close> reads \<open>self.pipelined_model\<close> before assigning it
  and raises \<open>AttributeError\<close>.  The backend it constructed before failing is a class of
  the model-level storage map, not of the component-level one.
\<close>

theorem SyncComponent_init_fails:
  "(\<exists>e st'. SyncComponent_init PipelinedModel new_storage pmid version
               component_name st = (Inl e, st')) \<and>
   (\<forall>storage addr st1 backend.
       get_storage model_storage_map st = (Inr (storage, addr), st1) \<longrightarrow>
       new_storage storage (Some (objects st1 ! addr)) = Inr backend \<longrightarrow>
         SyncComponent_init PipelinedModel new_storage pmid version
            component_name st =
           (Inl (AttributeError ''pipelined_model''),
            st1\<lparr>constructed := constructed st1 @ [(storage, Some (objects st1 ! addr))]\<rparr>) \<and>
         storage \<in> snd ` set model_storage_map \<and>
         storage \<notin> snd ` set component_storage_map)"
proof -
  have 1: "\<exists>e st'. SyncComponent_init PipelinedModel new_storage pmid version
               component_name st = (Inl e, st')"
    by (auto simp: SyncComponent_init_def SyncComponent_attributes_def bindE_def getattr_def
          SyncComponent_class_def Let_def split: prod.splits sum.splits)
  have 2: "SyncComponent_init PipelinedModel new_storage pmid version
            component_name st =
           (Inl (AttributeError ''pipelined_model''),
            st1\<lparr>constructed := constructed st1 @ [(storage, Some (objects st1 ! addr))]\<rparr>) \<and>
         storage \<in> snd ` set model_storage_map \<and>
         storage \<notin> snd ` set component_storage_map"
    if g: "get_storage model_storage_map st = (Inr (storage, addr), st1)"
      and n: "new_storage storage (Some (objects st1 ! addr)) = Inr backend"
    for storage addr st1 backend
  proof -
    have "storage \<in> snd ` set model_storage_map"
      using g
      by (auto simp: get_storage_def deepcopy_def Let_def dict_pop_def
            split: cfg.splits sum.splits option.splits prod.splits dest!: map_of_SomeD
            intro: rev_image_eqI)
    moreover from this have "storage \<notin> snd ` set component_storage_map"
      by (auto simp: model_storage_map_def component_storage_map_def)
    moreover have "SyncComponent_init PipelinedModel new_storage pmid version
            component_name st =
           (Inl (AttributeError ''pipelined_model''),
            st1\<lparr>constructed := constructed st1 @ [(storage, Some (objects st1 ! addr))]\<rparr>)"
      by (simp add: SyncComponent_init_def g n SyncComponent_attributes_def bindE_def getattr_def
            SyncComponent_class_def Let_def)
    ultimately show ?thesis by simp
  qed
  show ?thesis using 1 2 by blast
qed

theorem SyncComponent_init_fails_witness:
  "SyncComponent_init
      (\<lambda>a b. Inr \<lparr>pm_role = ''guest'', pm_party_id = ''9999'', pm_model_id = ''m'',
                  pm_model_version = b, pm_party_model_id = a\<rparr>)
      (\<lambda>c k. Inr c) ''guest#9999#m'' ''v1'' ''hetero_lr_0'' (registry_example ''mysql'') =
     (Inl (AttributeError ''pipelined_model''),
      \<lparr>objects = [CDict [(''storage'', CStr ''mysql''), (''host'', CStr ''10.0.0.7'')],
                  CDict [(''host'', CStr ''10.0.0.7'')]],
       MODEL_STORE_ADDRESS = 0,
       constructed = [(MysqlModelStorage, Some (CDict [(''host'', CStr ''10.0.0.7'')]))]\<rparr>)"
proof -
  have g: "get_storage model_storage_map (registry_example ''mysql'') =
     (Inr (MysqlModelStorage, 1),
      \<lparr>objects = [CDict [(''storage'', CStr ''mysql''), (''host'', CStr ''10.0.0.7'')],
                  CDict [(''host'', CStr ''10.0.0.7'')]],
       MODEL_STORE_ADDRESS = 0, constructed = []\<rparr>)"
    by (simp add: registry_example_def get_storage_def deepcopy_def dict_pop_def dict_del_def
          model_storage_map_def)
  show ?thesis
    using SyncComponent_init_fails [of _ "\<lambda>c k. Inr c" _ _ _ "registry_example ''mysql''"] g
    by simp
qed










lemma length_group_by: "length (group_by key xs) = card (key ` set xs)"
proof (induction key xs rule: group_by.induct)
  case (1 key)
  then show ?case by simp
next
  case (2 key x xs)
  have "key ` set (x # xs) = insert (key x) (key ` set (filter (\<lambda>y. key y \<noteq> key x) xs))"
    by auto
  moreover have "key x \<notin> key ` set (filter (\<lambda>y. key y \<noteq> key x) xs)"
    by auto
  ultimately have "card (key ` set (x # xs)) = Suc (card (key ` set (filter (\<lambda>y. key y \<noteq> key x) xs)))"
    by simp
  with 2 show ?case by simp
qed

lemma hd_group_by: "xs \<noteq> [] \<Longrightarrow> group_by key xs ! 0 = hd xs"
  by (cases xs) simp_all

text \<open>
  Claim C3.  \<open>get_archive_hash\<close> groups the rows of the identity and component by
  (\<open>f_archive_sha256\<close>, \<open>f_archive_from_ip\<close>) and raises the error for invalid metadata
  unless there is exactly one group; with no rows there is no group, so it raises too.
  With exactly one group it returns the hash of that group, which is the hash of every
  matching row.
\<close>

theorem get_archive_hash_one_group:
  "get_archive_hash self table =
     (if card (archive_group ` set (filter (sc_query_args self) table)) = 1
      then Inr (f_archive_sha256 (hd (filter (sc_query_args self) table)))
      else Inl (invalid_define_meta (sc_component_name self))) \<and>
   (filter (sc_query_args self) table = [] \<longrightarrow>
      get_archive_hash self table = Inl (invalid_define_meta (sc_component_name self))) \<and>
   (\<forall>h. get_archive_hash self table = Inr h \<longrightarrow>
      filter (sc_query_args self) table \<noteq> [] \<and>
      (\<forall>row \<in> set (filter (sc_query_args self) table).
         f_archive_sha256 row = h \<and>
         f_archive_from_ip row = f_archive_from_ip (hd (filter (sc_query_args self) table))))"
proof -
  let ?rows = "filter (sc_query_args self) table"
  have eq: "get_archive_hash self table =
     (if card (archive_group ` set ?rows) = 1
      then Inr (f_archive_sha256 (hd ?rows))
      else Inl (invalid_define_meta (sc_component_name self)))"
  proof (cases "?rows = []")
    case True
    then show ?thesis by (simp add: get_archive_hash_def)
  next
    case False
    then show ?thesis
      by (simp add: get_archive_hash_def Let_def length_group_by hd_group_by)
  qed
  have none: "get_archive_hash self table = Inl (invalid_define_meta (sc_component_name self))"
    if "?rows = []"
    using that by (simp add: eq)
  have all: "?rows \<noteq> [] \<and>
      (\<forall>row \<in> set ?rows.
         f_archive_sha256 row = h \<and> f_archive_from_ip row = f_archive_from_ip (hd ?rows))"
    if "get_archive_hash self table = Inr h" for h
  proof -
    from that have c: "card (archive_group ` set ?rows) = 1" and h: "h = f_archive_sha256 (hd ?rows)"
      by (auto simp: eq split: if_splits)
    have ne: "?rows \<noteq> []"
    proof
      assume e: "?rows = []"
      have "card (archive_group ` set ?rows) = 0" unfolding e by simp
      with c show False by simp
    qed
    from c obtain g where g: "archive_group ` set ?rows = {g}"
      by (auto simp: card_1_singleton_iff)
    have "archive_group (hd ?rows) = g"
      using ne g by (metis hd_in_set image_eqI singletonD)
    moreover have "archive_group row = g" if "row \<in> set ?rows" for row
      using that g by blast
    ultimately show ?thesis
      using ne h by (auto simp: archive_group_def) 
  qed
  show ?thesis using eq none all by blast
qed

theorem get_archive_hash_one_group_witness:
  "get_archive_hash example_component
      [example_row 1 ''hetero_lr_0'' ''a'' (Some ''abc''), example_row 2 ''hetero_lr_0'' ''b'' (Some ''abc''),
       example_row 3 ''reader_0'' ''a'' (Some ''xyz'')] = Inr (Some ''abc'') \<and>
   get_archive_hash example_component
      [example_row 1 ''hetero_lr_0'' ''a'' (Some ''abc''), example_row 2 ''hetero_lr_0'' ''b'' (Some ''def'')] =
     Inl (invalid_define_meta ''hetero_lr_0'') \<and>
   get_archive_hash example_component [example_row 3 ''reader_0'' ''a'' (Some ''xyz'')] =
     Inl (invalid_define_meta ''hetero_lr_0'')"
proof -
  let ?t1 = "[example_row 1 ''hetero_lr_0'' ''a'' (Some ''abc''), example_row 2 ''hetero_lr_0'' ''b'' (Some ''abc''),
       example_row 3 ''reader_0'' ''a'' (Some ''xyz'')]"
  let ?t2 = "[example_row 1 ''hetero_lr_0'' ''a'' (Some ''abc''), example_row 2 ''hetero_lr_0'' ''b'' (Some ''def'')]"
  let ?t3 = "[example_row 3 ''reader_0'' ''a'' (Some ''xyz'')]"
  have f1: "filter (sc_query_args example_component) ?t1 =
              [example_row 1 ''hetero_lr_0'' ''a'' (Some ''abc''), example_row 2 ''hetero_lr_0'' ''b'' (Some ''abc'')]"
    and f2: "filter (sc_query_args example_component) ?t2 = ?t2"
    and f3: "filter (sc_query_args example_component) ?t3 = []"
    by (simp_all add: sc_query_args_def example_component_def example_pm_def example_row_def)
  have c1: "archive_group ` set (filter (sc_query_args example_component) ?t1) = {(Some ''abc'', Some ''hostA'')}"
    unfolding f1 by (simp add: archive_group_def example_row_def)
  have c2: "archive_group ` set (filter (sc_query_args example_component) ?t2) =
              {(Some ''abc'', Some ''hostA''), (Some ''def'', Some ''hostA'')}"
    unfolding f2 by (simp add: archive_group_def example_row_def)
  have r1: "get_archive_hash example_component ?t1 = Inr (Some ''abc'')"
    using get_archive_hash_one_group [of example_component ?t1, THEN conjunct1]
    unfolding c1 unfolding f1 by (simp add: example_row_def)
  have r2: "get_archive_hash example_component ?t2 = Inl (invalid_define_meta ''hetero_lr_0'')"
    using get_archive_hash_one_group [of example_component ?t2, THEN conjunct1]
    unfolding c2 by (simp add: example_component_def)
  have r3: "get_archive_hash example_component ?t3 = Inl (invalid_define_meta ''hetero_lr_0'')"
    using get_archive_hash_one_group [of example_component ?t3, THEN conjunct2, THEN conjunct1] f3
    by (simp add: example_component_def)
  show ?thesis using r1 r2 r3 by simp
qed

section \<open>Properties of pipelined\_component.py: archives\<close>

lemma unpack_temp_directory:
  "temp_directory (snd (unpack_component cd TEMP self c hash s)) = temp_directory s"
  by (simp add: unpack_component_def Let_def split: option.splits sum.splits prod.splits)

text \<open>
  Claim C5.  With a hash supplied, \<open>unpack_component\<close> recomputes the SHA-256 of the
  archive's bytes and, if it differs, raises the mismatch error with nothing changed:
  the state is returned as it was, file tree and archive included.  With no hash or the
  right hash it extracts the archive into the model root.  The archive file is left in
  place in every case, and the file tree changes only if the hash was absent or right.
\<close>

theorem unpack_component_integrity:
  "(\<forall>h data.
      hash = Some h \<longrightarrow>
      temp_directory s (get_archive_path TEMP self c) = Some data \<longrightarrow>
      h \<noteq> sha256_hexdigest cd data \<longrightarrow>
        unpack_component cd TEMP self c hash s =
          (Inl (hash_mismatch (get_archive_path TEMP self c) h (sha256_hexdigest cd data)), s)) \<and>
   (\<forall>data.
      temp_directory s (get_archive_path TEMP self c) = Some data \<longrightarrow>
      (hash = None \<or> hash = Some (sha256_hexdigest cd data)) \<longrightarrow>
        unpack_component cd TEMP self c hash s =
          (case zip_entries cd data of
             None \<Rightarrow> (Inl BadZipFile, s)
           | Some members \<Rightarrow>
               (fst (extractall members (model_root s)),
                s\<lparr>model_root := snd (extractall members (model_root s))\<rparr>))) \<and>
   (temp_directory s (get_archive_path TEMP self c) = None \<longrightarrow>
      unpack_component cd TEMP self c hash s = (Inl FileNotFoundError, s)) \<and>
   temp_directory (snd (unpack_component cd TEMP self c hash s)) = temp_directory s \<and>
   (model_root (snd (unpack_component cd TEMP self c hash s)) \<noteq> model_root s \<longrightarrow>
      (\<exists>data. temp_directory s (get_archive_path TEMP self c) = Some data \<and>
              (hash = None \<or> hash = Some (sha256_hexdigest cd data))))"
proof -
  let ?f = "get_archive_path TEMP self c"
  have mismatch: "unpack_component cd TEMP self c hash s =
          (Inl (hash_mismatch ?f h (sha256_hexdigest cd data)), s)"
    if "hash = Some h" and "temp_directory s ?f = Some data" and "h \<noteq> sha256_hexdigest cd data" for h data
    using that by (simp add: unpack_component_def Let_def)
  have extr: "unpack_component cd TEMP self c hash s =
          (case zip_entries cd data of
             None \<Rightarrow> (Inl BadZipFile, s)
           | Some members \<Rightarrow>
               (fst (extractall members (model_root s)),
                s\<lparr>model_root := snd (extractall members (model_root s))\<rparr>))"
    if "temp_directory s ?f = Some data" and "hash = None \<or> hash = Some (sha256_hexdigest cd data)" for data
    using that by (auto simp: unpack_component_def Let_def split: option.splits prod.splits)
  have missing: "unpack_component cd TEMP self c hash s = (Inl FileNotFoundError, s)"
    if "temp_directory s ?f = None"
    using that by (simp add: unpack_component_def Let_def split: option.splits)
  have nochange: "\<exists>data. temp_directory s ?f = Some data \<and>
              (hash = None \<or> hash = Some (sha256_hexdigest cd data))"
    if "model_root (snd (unpack_component cd TEMP self c hash s)) \<noteq> model_root s"
  proof (cases "temp_directory s ?f")
    case None
    with that missing show ?thesis by simp
  next
    case (Some data)
    show ?thesis
    proof (cases "hash = None \<or> hash = Some (sha256_hexdigest cd data)")
      case True
      with Some show ?thesis by blast
    next
      case False
      then obtain h where "hash = Some h" "h \<noteq> sha256_hexdigest cd data" by auto
      with mismatch Some that show ?thesis by simp
    qed
  qed
  show ?thesis
    using mismatch extr missing nochange unpack_temp_directory [of cd TEMP self c hash s] by blast
qed

lemma map_of_dict_set: "map_of (dict_set k v es) = (map_of es)(k \<mapsto> v)"
  by (induction es) (auto simp: fun_eq_iff)

lemma kind_Nil: "kind t [] = (case t of File b \<Rightarrow> Some (Some b) | Dir es \<Rightarrow> Some None)"
  by (simp add: kind_def split: fnode.splits)

lemma kind_File_Cons: "kind (File b) (x # q) = None"
  by (simp add: kind_def)

lemma kind_Dir_Cons: "kind (Dir es) (x # q) = (case map_of es x of None \<Rightarrow> None | Some c \<Rightarrow> kind c q)"
  by (simp add: kind_def split: option.splits)

lemmas kind_simps = kind_Nil kind_File_Cons kind_Dir_Cons

lemma kind_empty_dir: "kind (Dir []) q = (if q = [] then Some None else None)"
  by (cases q) (simp_all add: kind_simps)

lemma makedirs_kind:
  assumes "\<forall>q b. prefix q u \<longrightarrow> kind t q \<noteq> Some (Some b)"
  shows "\<exists>t'. makedirs u t = Inr t' \<and> (\<forall>q. kind t' q = (if prefix q u then Some None else kind t q))"
  using assms
proof (induction u arbitrary: t)
  case Nil
  then show ?case
    by (cases t) (auto simp: kind_simps)
next
  case (Cons x xs)
  from Cons.prems have "kind t [] \<noteq> Some (Some b)" for b by simp
  then obtain es where t: "t = Dir es"
    by (cases t) (auto simp: kind_simps)
  let ?c = "case map_of es x of None \<Rightarrow> Dir [] | Some c \<Rightarrow> c"
  have sub: "kind ?c q = (case map_of es x of None \<Rightarrow> kind (Dir []) q | Some c \<Rightarrow> kind t (x # q))" for q
    by (simp add: t kind_simps split: option.splits)
  have "\<forall>q b. prefix q xs \<longrightarrow> kind ?c q \<noteq> Some (Some b)"
  proof (intro allI impI)
    fix q b assume p: "prefix q xs"
    then have "kind t (x # q) \<noteq> Some (Some b)" using Cons.prems by simp
    then show "kind ?c q \<noteq> Some (Some b)"
      by (simp add: sub kind_empty_dir split: option.splits)
  qed
  from Cons.IH [OF this] obtain c' where
    c': "makedirs xs ?c = Inr c'" "\<And>q. kind c' q = (if prefix q xs then Some None else kind ?c q)"
    by blast
  have mk: "makedirs (x # xs) t = Inr (Dir (dict_set x c' es))"
    by (simp add: t c'(1))
  have "kind (Dir (dict_set x c' es)) q = (if prefix q (x # xs) then Some None else kind t q)" for q
  proof (cases q)
    case Nil
    then show ?thesis by (simp add: kind_simps)
  next
    case (Cons y q')
    then show ?thesis
      by (auto simp: kind_simps map_of_dict_set c'(2) t kind_empty_dir split: option.splits)
  qed
  with mk show ?case by blast
qed

lemma write_file_kind:
  assumes "p \<noteq> []"
    and "kind t (butlast p) = Some None"
    and "kind t p \<noteq> Some None"
  shows "\<exists>t'. write_file Truncate p b t = Inr t' \<and> (\<forall>q. kind t' q = (if q = p then Some (Some b) else
             if strict_prefix p q then None else kind t q))"
  using assms
proof (induction p arbitrary: t)
  case Nil
  then show ?case by simp
next
  case (Cons x xs)
  show ?case
  proof (cases xs)
    case Nil
    with Cons.prems obtain es where t: "t = Dir es"
      by (cases t) (auto simp: kind_simps)
    show ?thesis
    proof (cases "map_of es x")
      case None
      have w: "write_file Truncate (x # xs) b t = Inr (Dir (es @ [(x, File b)]))"
        by (simp add: t None Nil)
      have "kind (Dir (es @ [(x, File b)])) q = (if q = x # xs then Some (Some b) else
             if strict_prefix (x # xs) q then None else kind t q)" for q
      proof (cases q)
        case Nil
        then show ?thesis by (simp add: kind_simps t)
      next
        case (Cons y q')
        then show ?thesis
          using None \<open>xs = []\<close>
          by (cases q') (auto simp: kind_simps t map_add_def split: option.splits)
      qed
      with w show ?thesis by blast
    next
      case (Some c)
      with Cons.prems Nil t obtain old where c: "c = File old"
        by (cases c) (auto simp: kind_simps)
      have w: "write_file Truncate (x # xs) b t = Inr (Dir (dict_set x (File b) es))"
        by (simp add: t Some Nil c)
      have "kind (Dir (dict_set x (File b) es)) q = (if q = x # xs then Some (Some b) else
             if strict_prefix (x # xs) q then None else kind t q)" for q
      proof (cases q)
        case Nil
        then show ?thesis by (simp add: kind_simps t)
      next
        case (Cons y q')
        then show ?thesis
          using Some \<open>xs = []\<close> c
          by (cases q') (auto simp: kind_simps t map_of_dict_set split: option.splits)
      qed
      with w show ?thesis by blast
    qed
  next
    case (Cons x' xs')
    from Cons.prems(2) Cons obtain es c where t: "t = Dir es" and c: "map_of es x = Some c"
      and cb: "kind c (butlast xs) = Some None"
      by (cases t) (auto simp: kind_simps split: option.splits)
    from Cons.prems(3) have cp: "kind c xs \<noteq> Some None"
      by (simp add: t c kind_simps)
    from Cons have ne: "xs \<noteq> []" by simp
    from Cons.IH [OF ne cb cp] obtain c' where
      c': "write_file Truncate xs b c = Inr c'"
          "\<And>q. kind c' q = (if q = xs then Some (Some b) else if strict_prefix xs q then None else kind c q)"
      by blast
    have w: "write_file Truncate (x # xs) b t = Inr (Dir (dict_set x c' es))"
      by (simp add: t c c'(1))
    have "kind (Dir (dict_set x c' es)) q = (if q = x # xs then Some (Some b) else
             if strict_prefix (x # xs) q then None else kind t q)" for q
    proof (cases q)
      case Nil
      then show ?thesis by (simp add: kind_simps t)
    next
      case (Cons y q')
      then show ?thesis
        by (auto simp: kind_simps t map_of_dict_set c c'(2) split: option.splits)
    qed
    with w show ?thesis by blast
  qed
qed


lemma kind_strict_prefix_dir:
  assumes "kind t p = Some k" and "strict_prefix q p"
  shows "kind t q = Some None"
  using assms
proof (induction q arbitrary: t p)
  case Nil
  then show ?case
    by (cases p; cases t) (auto simp: kind_simps)
next
  case (Cons y q)
  then obtain p' where p: "p = y # p'" and sp: "strict_prefix q p'"
    by (cases p) auto
  with Cons.prems(1) obtain es c where "t = Dir es" "map_of es y = Some c" "kind c p' = Some k"
    by (cases t) (auto simp: kind_simps split: option.splits)
  with Cons.IH [OF _ sp] show ?case
    by (simp add: kind_simps)
qed

lemma kind_None_iff: "kind t p = None \<longleftrightarrow> lookup p t = None"
  by (simp add: kind_def split: option.splits fnode.splits)

lemma strict_prefix_snoc: "strict_prefix q (ys @ [y]) \<longleftrightarrow> prefix q ys"
  by (auto simp: strict_prefix_def prefix_snoc dest: prefix_length_le)

lemma prefix_butlast_iff: "p \<noteq> [] \<Longrightarrow> prefix q (butlast p) \<longleftrightarrow> strict_prefix q p"
  using strict_prefix_snoc [of q "butlast p" "last p"] by simp

lemma extract_file_kind:
  assumes ne: "p \<noteq> []"
    and san: "sanitize p = p"
    and nd: "kind t p \<noteq> Some None"
    and nf: "\<forall>q b'. strict_prefix q p \<longrightarrow> kind t q \<noteq> Some (Some b')"
  shows "\<exists>t'. extract_member (ZFile p b) t = (Inr (), t') \<and>
           (\<forall>q. kind t' q = (if q = p then Some (Some b) else
                              if strict_prefix q p then Some None else kind t q))"
proof -
  have below: "kind t q = None" if "strict_prefix p q" for q
  proof (cases "kind t q")
    case None
    then show ?thesis .
  next
    case (Some k)
    from kind_strict_prefix_dir [OF Some that] nd show ?thesis by simp
  qed
  have "\<exists>t1. make_upperdirs p t = Inr t1 \<and>
          (\<forall>q. kind t1 q = (if strict_prefix q p then Some None else kind t q))"
  proof (cases "lookup (butlast p) t = None")
    case True
    have "\<forall>q b'. prefix q (butlast p) \<longrightarrow> kind t q \<noteq> Some (Some b')"
      using nf ne by (simp add: prefix_butlast_iff)
    from makedirs_kind [OF this] obtain t1 where
      "makedirs (butlast p) t = Inr t1"
      "\<And>q. kind t1 q = (if prefix q (butlast p) then Some None else kind t q)"
      by blast
    then show ?thesis
      using True ne by (auto simp: make_upperdirs_def prefix_butlast_iff)
  next
    case False
    then obtain k where k: "kind t (butlast p) = Some k"
      by (auto simp: kind_None_iff [symmetric])
    have sp: "strict_prefix (butlast p) p"
      using ne prefix_butlast_iff [OF ne, of "butlast p"] by simp
    have "kind t q = Some None" if "strict_prefix q p" for q
    proof (cases "q = butlast p")
      case True
      from nf sp k have "k = None" by (cases k) auto
      with k True show ?thesis by simp
    next
      case False
      from that ne have "prefix q (butlast p)" by (simp add: prefix_butlast_iff)
      with False have "strict_prefix q (butlast p)" by (simp add: strict_prefix_def)
      from kind_strict_prefix_dir [OF k this] show ?thesis .
    qed
    then show ?thesis
      using False by (auto simp: make_upperdirs_def)
  qed
  then obtain t1 where m: "make_upperdirs p t = Inr t1"
    and k1: "\<And>q. kind t1 q = (if strict_prefix q p then Some None else kind t q)"
    by blast
  have "strict_prefix (butlast p) p"
    using ne prefix_butlast_iff [OF ne, of "butlast p"] by simp
  then have b1: "kind t1 (butlast p) = Some None" by (simp add: k1)
  have p1: "kind t1 p \<noteq> Some None" using nd by (simp add: k1)
  from write_file_kind [OF ne b1 p1, of b] obtain t2 where
    w: "write_file Truncate p b t1 = Inr t2"
    and k2: "\<And>q. kind t2 q = (if q = p then Some (Some b) else
                              if strict_prefix p q then None else kind t1 q)"
    by blast
  have "kind t2 q = (if q = p then Some (Some b) else
                     if strict_prefix q p then Some None else kind t q)" for q
    using below [of q] by (auto simp: k2 k1)
  moreover have "extract_member (ZFile p b) t = (Inr (), t2)"
    by (simp add: san m w)
  ultimately show ?thesis by blast
qed

lemma extractall_from_tree:
  assumes "subtree t src"
    and "\<forall>m \<in> set ms. \<exists>p b. m = ZFile p b \<and> p \<noteq> [] \<and> sanitize p = p \<and> kind src p = Some (Some b)"
  shows "\<exists>t'. extractall ms t = (Inr (), t') \<and> subtree t' src \<and>
           (\<forall>q b. kind t' q = Some (Some b) \<longleftrightarrow> kind t q = Some (Some b) \<or> ZFile q b \<in> set ms) \<and>
           (\<forall>q. kind t' q = Some None \<longleftrightarrow>
                  kind t q = Some None \<or> (\<exists>p b. ZFile p b \<in> set ms \<and> strict_prefix q p))"
  using assms
proof (induction ms arbitrary: t)
  case Nil
  then show ?case by simp
next
  case (Cons m ms)
  then obtain p b where m: "m = ZFile p b" and ne: "p \<noteq> []" and san: "sanitize p = p"
    and src: "kind src p = Some (Some b)"
    by auto
  have nd: "kind t p \<noteq> Some None"
    using Cons.prems(1) src by (auto simp: subtree_def)
  have nf: "\<forall>q b'. strict_prefix q p \<longrightarrow> kind t q \<noteq> Some (Some b')"
  proof (intro allI impI notI)
    fix q b' assume sp: "strict_prefix q p" and "kind t q = Some (Some b')"
    then have "kind src q = Some (Some b')" using Cons.prems(1) by (simp add: subtree_def)
    with kind_strict_prefix_dir [OF src sp] show False by simp
  qed
  from extract_file_kind [OF ne san nd nf, of b] obtain t1 where
    e: "extract_member (ZFile p b) t = (Inr (), t1)"
    and k1: "\<And>q. kind t1 q = (if q = p then Some (Some b) else
                              if strict_prefix q p then Some None else kind t q)"
    by blast
  have s1: "subtree t1 src"
    unfolding subtree_def
  proof (intro allI impI)
    fix q k assume a: "kind t1 q = Some k"
    show "kind src q = Some k"
    proof (cases "q = p")
      case True
      with a src show ?thesis by (simp add: k1)
    next
      case False
      show ?thesis
      proof (cases "strict_prefix q p")
        case True
        with a False kind_strict_prefix_dir [OF src True] show ?thesis by (simp add: k1)
      next
        case sp: False
        with a False Cons.prems(1) show ?thesis by (simp add: k1 subtree_def)
      qed
    qed
  qed
  from Cons.IH [OF s1] Cons.prems(2) obtain t' where
    r: "extractall ms t1 = (Inr (), t')" and s': "subtree t' src"
    and k': "\<And>q c. kind t' q = Some (Some c) \<longleftrightarrow> kind t1 q = Some (Some c) \<or> ZFile q c \<in> set ms"
    and d': "\<And>q. kind t' q = Some None \<longleftrightarrow>
                 kind t1 q = Some None \<or> (\<exists>p b. ZFile p b \<in> set ms \<and> strict_prefix q p)"
    by auto
  have d1: "kind t1 q = Some None \<longleftrightarrow> kind t q = Some None \<or> strict_prefix q p" for q
    using nd by (auto simp: k1)
  have dirs: "kind t' q = Some None \<longleftrightarrow>
      kind t q = Some None \<or> (\<exists>p b. ZFile p b \<in> set (m # ms) \<and> strict_prefix q p)" for q
    unfolding d' d1 by (auto simp: m)
  have "kind t' q = Some (Some c) \<longleftrightarrow> kind t q = Some (Some c) \<or> ZFile q c \<in> set (m # ms)" for q c
  proof (cases "q = p")
    case True
    have "kind t p = Some (Some c) \<Longrightarrow> c = b"
      using Cons.prems(1) src by (auto simp: subtree_def)
    with True show ?thesis by (auto simp: k' k1 m)
  next
    case False
    have "kind t q \<noteq> Some (Some c)" if "strict_prefix q p"
      using nf that by simp
    with False show ?thesis by (auto simp: k' k1 m)
  qed
  moreover have "extractall (m # ms) t = (Inr (), t')"
    by (simp add: m e r del: extract_member.simps)
  ultimately show ?case using s' dirs by blast
qed


lemma wf_entries_map_of:
  "wf_entries es \<Longrightarrow> map_of es x = Some c \<Longrightarrow> valid_name x \<and> wf_node c"
  by (induction es) (auto split: if_splits)

lemma wf_kind_valid:
  "wf_node n \<Longrightarrow> kind n r = Some k \<Longrightarrow> \<forall>x \<in> set r. valid_name x"
proof (induction r arbitrary: n)
  case Nil
  then show ?case by simp
next
  case (Cons y r)
  then obtain es c where "n = Dir es" "map_of es y = Some c" "kind c r = Some k"
    by (cases n) (auto simp: kind_simps split: option.splits)
  with Cons.prems(1) wf_entries_map_of [of es y c] Cons.IH [of c] show ?case
    by simp
qed

lemma wf_lookup:
  "wf_node n \<Longrightarrow> lookup r n = Some m \<Longrightarrow> wf_node m"
proof (induction r arbitrary: n)
  case Nil
  then show ?case by simp
next
  case (Cons y r)
  then obtain es c where "n = Dir es" "map_of es y = Some c" "lookup r c = Some m"
    by (cases n) (auto split: option.splits)
  with Cons.prems(1) wf_entries_map_of [of es y c] Cons.IH [of c] show ?case
    by simp
qed

lemma kind_append:
  "kind t (p @ r) = (case lookup p t of None \<Rightarrow> None | Some n \<Rightarrow> kind n r)"
proof (induction p arbitrary: t)
  case Nil
  then show ?case by simp
next
  case (Cons y p)
  then show ?case
    by (cases t) (auto simp: kind_simps split: option.splits)
qed

lemma iterdir_lookup: "iterdir p t = Inr es \<longleftrightarrow> lookup p t = Some (Dir es)"
proof (induction p arbitrary: t)
  case Nil
  then show ?case by (cases t) auto
next
  case (Cons y p)
  then show ?case
    by (cases t) (auto split: option.splits)
qed

lemma sanitize_valid: "(\<forall>x \<in> set p. valid_name x) \<Longrightarrow> sanitize p = p"
  by (simp add: sanitize_def valid_name_def)

lemma walk_members:
  "wf_entries es \<Longrightarrow>
     (m \<in> set (walk_component dp es) \<longleftrightarrow>
        (\<exists>x r c b. m = ZFile (dp @ x # r) b \<and> map_of es x = Some c \<and> kind c r = Some (Some b)))"
  "wf_node n \<Longrightarrow>
     (m \<in> set (walk_path p n) \<longleftrightarrow> (\<exists>r b. m = ZFile (p @ r) b \<and> kind n r = Some (Some b)))"
proof (induction dp es and p n rule: walk_component_walk_path.induct)
  case (1 dir_path)
  then show ?case by simp
next
  case (2 dir_path entry rest)
  from "2.prems" have v: "map_of rest (fst entry) = None"
    and w1: "wf_node (snd entry)" and w2: "wf_entries rest"
    by (auto simp: map_of_eq_None_iff)
  have a: "m \<in> set (walk_path (dir_path @ [fst entry]) (snd entry)) \<longleftrightarrow>
        (\<exists>r b. m = ZFile (dir_path @ fst entry # r) b \<and> kind (snd entry) r = Some (Some b))"
    using "2.IH"(1) [OF w1] by simp
  have b: "m \<in> set (walk_component dir_path rest) \<longleftrightarrow>
        (\<exists>x r c b. m = ZFile (dir_path @ x # r) b \<and> map_of rest x = Some c \<and> kind c r = Some (Some b))"
    using "2.IH"(2) [OF w2] by simp
  have m: "map_of (entry # rest) x = (if x = fst entry then Some (snd entry) else map_of rest x)" for x
    by (cases entry) simp
  have "(\<exists>x r c b. m = ZFile (dir_path @ x # r) b \<and> map_of (entry # rest) x = Some c \<and>
            kind c r = Some (Some b)) \<longleftrightarrow>
        (\<exists>r b. m = ZFile (dir_path @ fst entry # r) b \<and> kind (snd entry) r = Some (Some b)) \<or>
        (\<exists>x r c b. m = ZFile (dir_path @ x # r) b \<and> map_of rest x = Some c \<and> kind c r = Some (Some b))"
    (is "?L \<longleftrightarrow> ?A \<or> ?B")
  proof
    assume ?L
    then obtain x r c b where l: "m = ZFile (dir_path @ x # r) b" "map_of (entry # rest) x = Some c"
      "kind c r = Some (Some b)" by blast
    show "?A \<or> ?B"
    proof (cases "x = fst entry")
      case True
      with l have "c = snd entry" by (simp add: m)
      with l True show ?thesis by blast
    next
      case False
      with l have "map_of rest x = Some c" by (simp add: m)
      with l show ?thesis by blast
    qed
  next
    assume "?A \<or> ?B"
    then show ?L
    proof
      assume ?A
      then obtain r b where "m = ZFile (dir_path @ fst entry # r) b" "kind (snd entry) r = Some (Some b)"
        by blast
      moreover have "map_of (entry # rest) (fst entry) = Some (snd entry)" by (simp add: m)
      ultimately show ?L by blast
    next
      assume ?B
      then obtain x r c b where l: "m = ZFile (dir_path @ x # r) b" "map_of rest x = Some c"
        "kind c r = Some (Some b)" by blast
      with v have "x \<noteq> fst entry" by auto
      with l have "map_of (entry # rest) x = Some c" by (simp add: m)
      with l show ?L by blast
    qed
  qed
  then show ?case
    unfolding walk_component.simps set_append Un_iff a b by simp
next
  case (3 p es)
  then have "m \<in> set (walk_component p es) \<longleftrightarrow>
        (\<exists>x r c b. m = ZFile (p @ x # r) b \<and> map_of es x = Some c \<and> kind c r = Some (Some b))"
    by simp
  moreover have "(\<exists>r b. m = ZFile (p @ r) b \<and> kind (Dir es) r = Some (Some b)) \<longleftrightarrow>
        (\<exists>x r c b. m = ZFile (p @ x # r) b \<and> map_of es x = Some c \<and> kind c r = Some (Some b))"
  proof
    assume "\<exists>r b. m = ZFile (p @ r) b \<and> kind (Dir es) r = Some (Some b)"
    then obtain r b where r: "m = ZFile (p @ r) b" "kind (Dir es) r = Some (Some b)" by blast
    then obtain x r' where "r = x # r'" by (cases r) (auto simp: kind_simps)
    with r show "\<exists>x r c b. m = ZFile (p @ x # r) b \<and> map_of es x = Some c \<and> kind c r = Some (Some b)"
      by (auto simp: kind_simps split: option.splits)
  next
    assume "\<exists>x r c b. m = ZFile (p @ x # r) b \<and> map_of es x = Some c \<and> kind c r = Some (Some b)"
    then obtain x r c b where "m = ZFile (p @ x # r) b" "map_of es x = Some c" "kind c r = Some (Some b)"
      by blast
    then have "m = ZFile (p @ (x # r)) b \<and> kind (Dir es) (x # r) = Some (Some b)"
      by (simp add: kind_simps)
    then show "\<exists>r b. m = ZFile (p @ r) b \<and> kind (Dir es) r = Some (Some b)" by blast
  qed
  ultimately show ?case by simp
next
  case (4 p b)
  have "kind (File b) r = Some (Some b') \<longleftrightarrow> r = [] \<and> b' = b" for r b'
    by (cases r) (auto simp: kind_simps)
  then show ?case by auto
qed

lemma walk_directory:
  assumes wf: "wf_node root"
    and d: "lookup dp root = Some (Dir es)"
  shows "m \<in> set (walk_component dp es) \<longleftrightarrow>
           (\<exists>q b. m = ZFile q b \<and> prefix dp q \<and> kind root q = Some (Some b))"
proof -
  from wf_lookup [OF wf d] have we: "wf_entries es" by simp
  have k: "kind root (dp @ r) = kind (Dir es) r" for r
    by (simp add: kind_append d)
  show ?thesis
  proof
    assume "m \<in> set (walk_component dp es)"
    with walk_members(1) [OF we] obtain x r c b where
      "m = ZFile (dp @ x # r) b" "map_of es x = Some c" "kind c r = Some (Some b)" by blast
    then have "m = ZFile (dp @ x # r) b \<and> prefix dp (dp @ x # r) \<and> kind root (dp @ x # r) = Some (Some b)"
      by (simp add: k kind_simps)
    then show "\<exists>q b. m = ZFile q b \<and> prefix dp q \<and> kind root q = Some (Some b)" by blast
  next
    assume "\<exists>q b. m = ZFile q b \<and> prefix dp q \<and> kind root q = Some (Some b)"
    then obtain r b where m: "m = ZFile (dp @ r) b" and kr: "kind (Dir es) r = Some (Some b)"
      by (auto simp: prefix_def k)
    then obtain x r' where r: "r = x # r'" by (cases r) (auto simp: kind_simps)
    with kr obtain c where "map_of es x = Some c" "kind c r' = Some (Some b)"
      by (auto simp: kind_simps split: option.splits)
    with m r walk_members(1) [OF we, of m dp] show "m \<in> set (walk_component dp es)" by blast
  qed
qed

lemma file_at_kind: "file_at t p = Some b \<longleftrightarrow> kind t p = Some (Some b)"
  by (simp add: file_at_def kind_def split: option.splits fnode.splits)


lemma is_dir_kind: "is_dir p t \<longleftrightarrow> kind t p = Some None"
  by (auto simp: is_dir_def kind_def split: option.splits fnode.splits)

lemma is_dir_lookup: "is_dir p t \<longleftrightarrow> (\<exists>es. lookup p t = Some (Dir es))"
  by (auto simp: is_dir_def split: option.splits fnode.splits)

lemma archived_entries_members:
  assumes wf: "wf_node root"
    and d1: "is_dir (variables_data_path @ [c]) root"
    and d2: "is_dir (checkpoint_path @ [c]) root"
  shows "m \<in> set (archived_entries c root) \<longleftrightarrow>
           (\<exists>p b. m = ZFile p b \<and> in_component c p \<and> file_at root p = Some b)"
proof -
  from d1 d2 obtain es1 es2 where
    l1: "lookup (variables_data_path @ [c]) root = Some (Dir es1)"
    and l2: "lookup (checkpoint_path @ [c]) root = Some (Dir es2)"
    by (auto simp: is_dir_lookup)
  then have "iterdir (variables_data_path @ [c]) root = Inr es1"
    and "iterdir (checkpoint_path @ [c]) root = Inr es2"
    by (simp_all add: iterdir_lookup)
  then have a: "archived_entries c root =
      walk_component (variables_data_path @ [c]) es1 @ walk_component (checkpoint_path @ [c]) es2"
    by (simp add: archived_entries_def)
  show ?thesis
    unfolding a set_append Un_iff walk_directory [OF wf l1] walk_directory [OF wf l2]
      in_component_def file_at_kind
    by blast
qed

text \<open>
  Claim C6, as amended.  For a well-formed tree in which the two component directories
  exist, and with \<open>TEMP_DIRECTORY\<close> there, \<open>pack_component\<close> writes an archive whose
  entries are exactly the files below \<open>variables/data/<component>\<close> and
  \<open>checkpoint/<component>\<close>, each under its path relative to the model root, and returns
  the archive path with the SHA-256 of the archive's bytes.  Given that the zip library
  reads back what it wrote, \<open>unpack_component\<close> with that hash, on that archive and an
  empty destination, succeeds and leaves a tree whose files are those files, the same
  bytes at the same relative paths, and whose directories are the root and the
  directories on the way to those files: a directory of the component that holds no file
  is not there afterwards.
\<close>

theorem pack_unpack_round_trip:
  assumes wf: "wf_node (model_root s)"
    and temp: "temp_directory_exists s"
    and d1: "is_dir (variables_data_path @ [c]) (model_root s)"
    and d2: "is_dir (checkpoint_path @ [c]) (model_root s)"
    and codec: "zip_entries cd (zip_bytes cd (archived_entries c (model_root s))) =
                  Some (archived_entries c (model_root s))"
  shows "pack_component cd TEMP self c s =
           (Inr (get_archive_path TEMP self c,
                 sha256_hexdigest cd (zip_bytes cd (archived_entries c (model_root s)))),
            s\<lparr>temp_directory := (temp_directory s)
                 (get_archive_path TEMP self c \<mapsto> zip_bytes cd (archived_entries c (model_root s)))\<rparr>) \<and>
         (\<forall>m. m \<in> set (archived_entries c (model_root s)) \<longleftrightarrow>
               (\<exists>p b. m = ZFile p b \<and> in_component c p \<and> file_at (model_root s) p = Some b)) \<and>
         (\<forall>d. model_root d = Dir [] \<longrightarrow>
               temp_directory d (get_archive_path TEMP self c) =
                 Some (zip_bytes cd (archived_entries c (model_root s))) \<longrightarrow>
                 fst (unpack_component cd TEMP self c
                        (Some (sha256_hexdigest cd (zip_bytes cd (archived_entries c (model_root s))))) d) =
                   Inr () \<and>
                 (\<forall>p. file_at (model_root (snd (unpack_component cd TEMP self c
                          (Some (sha256_hexdigest cd (zip_bytes cd (archived_entries c (model_root s))))) d))) p =
                       (if in_component c p then file_at (model_root s) p else None)) \<and>
                 (\<forall>q. is_dir q (model_root (snd (unpack_component cd TEMP self c
                          (Some (sha256_hexdigest cd (zip_bytes cd (archived_entries c (model_root s))))) d))) \<longleftrightarrow>
                       q = [] \<or>
                       (\<exists>p b. in_component c p \<and> file_at (model_root s) p = Some b \<and> strict_prefix q p)))"
proof -
  let ?root = "model_root s"
  let ?z = "archived_entries c ?root"
  let ?f = "get_archive_path TEMP self c"
  let ?h = "sha256_hexdigest cd (zip_bytes cd ?z)"
  from d1 d2 obtain es1 es2 where
    l1: "lookup (variables_data_path @ [c]) ?root = Some (Dir es1)"
    and l2: "lookup (checkpoint_path @ [c]) ?root = Some (Dir es2)"
    by (auto simp: is_dir_lookup)
  then have i1: "iterdir (variables_data_path @ [c]) ?root = Inr es1"
    and i2: "iterdir (checkpoint_path @ [c]) ?root = Inr es2"
    by (simp_all add: iterdir_lookup)
  have packed: "pack_component cd TEMP self c s =
      (Inr (?f, ?h), s\<lparr>temp_directory := (temp_directory s)(?f \<mapsto> zip_bytes cd ?z)\<rparr>)"
    by (simp add: pack_component_def archived_entries_def i1 i2 temp Let_def)
  note members = archived_entries_members [OF wf d1 d2]
  have unpacked:
    "fst (unpack_component cd TEMP self c (Some ?h) d) = Inr () \<and>
     (\<forall>p. file_at (model_root (snd (unpack_component cd TEMP self c (Some ?h) d))) p =
           (if in_component c p then file_at ?root p else None)) \<and>
     (\<forall>q. is_dir q (model_root (snd (unpack_component cd TEMP self c (Some ?h) d))) \<longleftrightarrow>
           q = [] \<or> (\<exists>p b. in_component c p \<and> file_at ?root p = Some b \<and> strict_prefix q p))"
    if e: "model_root d = Dir []" and t: "temp_directory d ?f = Some (zip_bytes cd ?z)" for d
  proof -
    have rootdir: "kind ?root [] = Some None"
      using l1 by (cases ?root) (auto simp: kind_simps variables_data_path_def)
    have sub: "subtree (Dir []) ?root"
      using rootdir by (auto simp: subtree_def kind_empty_dir split: if_splits)
    have src: "\<forall>m \<in> set ?z. \<exists>p b. m = ZFile p b \<and> p \<noteq> [] \<and> sanitize p = p \<and>
                 kind ?root p = Some (Some b)"
    proof
      fix m assume "m \<in> set ?z"
      with members obtain p b where m: "m = ZFile p b" and k: "kind ?root p = Some (Some b)"
        by (auto simp: file_at_kind)
      from k rootdir have "p \<noteq> []" by auto
      moreover from wf_kind_valid [OF wf k] have "sanitize p = p" by (rule sanitize_valid)
      ultimately show "\<exists>p b. m = ZFile p b \<and> p \<noteq> [] \<and> sanitize p = p \<and> kind ?root p = Some (Some b)"
        using m k by blast
    qed
    from extractall_from_tree [OF sub src] obtain t' where
      x: "extractall ?z (Dir []) = (Inr (), t')"
      and k': "\<And>q b. kind t' q = Some (Some b) \<longleftrightarrow> kind (Dir []) q = Some (Some b) \<or> ZFile q b \<in> set ?z"
      and d': "\<And>q. kind t' q = Some None \<longleftrightarrow>
                 kind (Dir []) q = Some None \<or> (\<exists>p b. ZFile p b \<in> set ?z \<and> strict_prefix q p)"
      by blast
    have dirs: "is_dir q t' \<longleftrightarrow>
        q = [] \<or> (\<exists>p b. in_component c p \<and> file_at ?root p = Some b \<and> strict_prefix q p)" for q
    proof -
      have "(\<exists>p b. ZFile p b \<in> set ?z \<and> strict_prefix q p) \<longleftrightarrow>
            (\<exists>p b. in_component c p \<and> file_at ?root p = Some b \<and> strict_prefix q p)"
        using members by blast
      then show ?thesis
        by (simp add: is_dir_kind d' kind_empty_dir)
    qed
    have u: "unpack_component cd TEMP self c (Some ?h) d = (Inr (), d\<lparr>model_root := t'\<rparr>)"
      by (simp add: unpack_component_def Let_def t codec e x)
    have iff: "file_at t' p = Some b \<longleftrightarrow> in_component c p \<and> file_at ?root p = Some b" for p b
      using k' [of p b] members [of "ZFile p b"]
      by (auto simp: file_at_kind kind_empty_dir split: if_splits)
    have "file_at t' p = (if in_component c p then file_at ?root p else None)" for p
    proof (cases "file_at t' p")
      case None
      with iff [of p] show ?thesis by (cases "file_at ?root p") auto
    next
      case (Some b)
      with iff [of p b] show ?thesis by simp
    qed
    with u dirs show ?thesis by simp
  qed
  show ?thesis
    using packed members unpacked by blast
qed

lemma example_archived: "archived_entries ''fe_0'' example_root = example_entries"
  by (simp add: archived_entries_def example_root_def example_entries_def variables_data_path_def
        checkpoint_path_def)

lemma example_path: "get_archive_path ''/tmp'' example_self ''fe_0'' = ''/tmp/guest#9999#m_v1_fe_0.zip''"
  by (simp add: get_archive_path_def example_self_def)

theorem pack_unpack_round_trip_witness:
  "wf_node (model_root example_source) \<and>
   temp_directory_exists example_source \<and>
   is_dir (variables_data_path @ [''fe_0'']) (model_root example_source) \<and>
   is_dir (checkpoint_path @ [''fe_0'']) (model_root example_source) \<and>
   zip_entries example_codecs (zip_bytes example_codecs (archived_entries ''fe_0'' (model_root example_source))) =
     Some (archived_entries ''fe_0'' (model_root example_source)) \<and>
   pack_component example_codecs ''/tmp'' example_self ''fe_0'' example_source =
     (Inr (''/tmp/guest#9999#m_v1_fe_0.zip'', ''c0ffee''),
      example_source\<lparr>temp_directory := [''/tmp/guest#9999#m_v1_fe_0.zip'' \<mapsto> [80, 75, 4]]\<rparr>) \<and>
   length (archived_entries ''fe_0'' (model_root example_source)) = 4 \<and>
   fst (unpack_component example_codecs ''/tmp'' example_self ''fe_0'' (Some ''c0ffee'') example_destination) =
     Inr () \<and>
   file_at (model_root (snd (unpack_component example_codecs ''/tmp'' example_self ''fe_0''
              (Some ''c0ffee'') example_destination)))
       [''variables'', ''data'', ''fe_0'', ''default'', ''Meta''] = Some [1, 2] \<and>
   file_at (model_root (snd (unpack_component example_codecs ''/tmp'' example_self ''fe_0''
              (Some ''c0ffee'') example_destination)))
       [''checkpoint'', ''fe_0'', ''step1''] = Some [9] \<and>
   file_at (model_root (snd (unpack_component example_codecs ''/tmp'' example_self ''fe_0''
              (Some ''c0ffee'') example_destination)))
       [''define'', ''define_meta.yaml''] = None \<and>
   is_dir [''variables'', ''data'', ''fe_0'', ''v2'']
     (model_root (snd (unpack_component example_codecs ''/tmp'' example_self ''fe_0''
              (Some ''c0ffee'') example_destination)))"
proof -
  have wf: "wf_node (model_root example_source)"
    by (simp add: example_source_def example_root_def valid_name_def)
  have temp: "temp_directory_exists example_source"
    by (simp add: example_source_def)
  have d1: "is_dir (variables_data_path @ [''fe_0'']) (model_root example_source)"
    and d2: "is_dir (checkpoint_path @ [''fe_0'']) (model_root example_source)"
    by (simp_all add: is_dir_def example_source_def example_root_def variables_data_path_def
          checkpoint_path_def)
  have a: "archived_entries ''fe_0'' (model_root example_source) = example_entries"
    by (simp add: example_source_def example_archived)
  have codec: "zip_entries example_codecs
      (zip_bytes example_codecs (archived_entries ''fe_0'' (model_root example_source))) =
     Some (archived_entries ''fe_0'' (model_root example_source))"
    unfolding a by (simp add: example_codecs_def example_entries_def)
  have z: "zip_bytes example_codecs (archived_entries ''fe_0'' (model_root example_source)) = [80, 75, 4]"
    unfolding a by (simp add: example_codecs_def example_entries_def)
  have h: "sha256_hexdigest example_codecs [80, 75, 4] = ''c0ffee''"
    by (simp add: example_codecs_def)
  have e: "model_root example_destination = Dir []"
    and t: "temp_directory example_destination (get_archive_path ''/tmp'' example_self ''fe_0'') =
              Some [80, 75, 4]"
    by (simp_all add: example_destination_def example_path)
  note rt = pack_unpack_round_trip [OF wf temp d1 d2 codec, of "''/tmp''" example_self, unfolded z h example_path]
  have p: "pack_component example_codecs ''/tmp'' example_self ''fe_0'' example_source =
     (Inr (''/tmp/guest#9999#m_v1_fe_0.zip'', ''c0ffee''),
      example_source\<lparr>temp_directory := [''/tmp/guest#9999#m_v1_fe_0.zip'' \<mapsto> [80, 75, 4]]\<rparr>)"
    using rt by (simp add: example_source_def)
  have u: "fst (unpack_component example_codecs ''/tmp'' example_self ''fe_0'' (Some ''c0ffee'')
                  example_destination) = Inr ()"
    and f: "\<And>p. file_at (model_root (snd (unpack_component example_codecs ''/tmp'' example_self ''fe_0''
              (Some ''c0ffee'') example_destination))) p =
            (if in_component ''fe_0'' p then file_at (model_root example_source) p else None)"
    and g: "\<And>q. is_dir q (model_root (snd (unpack_component example_codecs ''/tmp'' example_self ''fe_0''
              (Some ''c0ffee'') example_destination))) \<longleftrightarrow>
            q = [] \<or> (\<exists>p b. in_component ''fe_0'' p \<and> file_at (model_root example_source) p = Some b \<and>
                     strict_prefix q p)"
    using rt e t [unfolded example_path] by blast+
  let ?t = "model_root (snd (unpack_component example_codecs ''/tmp'' example_self ''fe_0''
              (Some ''c0ffee'') example_destination))"
  have f1: "file_at ?t [''variables'', ''data'', ''fe_0'', ''default'', ''Meta''] = Some [1, 2]"
    and f2: "file_at ?t [''checkpoint'', ''fe_0'', ''step1''] = Some [9]"
    and f3: "file_at ?t [''define'', ''define_meta.yaml''] = None"
    unfolding f
    by (simp_all add: in_component_def variables_data_path_def checkpoint_path_def
          file_at_def example_source_def example_root_def)
  have n: "length (archived_entries ''fe_0'' (model_root example_source)) = 4"
    unfolding a by (simp add: example_entries_def)
  have "in_component ''fe_0'' [''variables'', ''data'', ''fe_0'', ''v2'', ''Meta''] \<and>
        file_at (model_root example_source) [''variables'', ''data'', ''fe_0'', ''v2'', ''Meta''] = Some [4] \<and>
        strict_prefix [''variables'', ''data'', ''fe_0'', ''v2'']
          [''variables'', ''data'', ''fe_0'', ''v2'', ''Meta'']"
    by (simp add: in_component_def variables_data_path_def file_at_def example_source_def
          example_root_def strict_prefix_def)
  then have g1: "is_dir [''variables'', ''data'', ''fe_0'', ''v2''] ?t"
    unfolding g by blast
  show ?thesis
    using wf temp d1 d2 codec p n u f1 f2 f3 g1 by blast
qed


lemma sparse_packed:
  "pack_component example_codecs ''/tmp'' example_self ''fe_0'' sparse_source =
     (Inr (''/tmp/guest#9999#m_v1_fe_0.zip'', ''0000''),
      sparse_source\<lparr>temp_directory := [''/tmp/guest#9999#m_v1_fe_0.zip'' \<mapsto> [80, 75, 1]]\<rparr>)"
  by (simp add: pack_component_def sparse_source_def sparse_root_def example_codecs_def
        example_path variables_data_path_def checkpoint_path_def Let_def)

lemma sparse_extractall:
  "extractall sparse_entries (Dir []) =
     (Inr (),
      Dir [(''variables'', Dir [(''data'', Dir [(''fe_0'', Dir [(''default'', Dir [(''Meta'', File [1, 2])])])])])])"
  by (simp add: sparse_entries_def sanitize_def make_upperdirs_def)

lemma sparse_unpacked:
  "unpack_component example_codecs ''/tmp'' example_self ''fe_0'' (Some ''0000'') sparse_destination =
     (Inr (),
      sparse_destination
        \<lparr>model_root :=
           Dir [(''variables'',
                 Dir [(''data'', Dir [(''fe_0'', Dir [(''default'', Dir [(''Meta'', File [1, 2])])])])])]\<rparr>)"
proof -
  have t: "temp_directory sparse_destination ''/tmp/guest#9999#m_v1_fe_0.zip'' = Some [80, 75, 1]"
    by (simp add: sparse_destination_def sparse_packed)
  have e: "model_root sparse_destination = Dir []"
    by (simp add: sparse_destination_def)
  have h: "sha256_hexdigest example_codecs [80, 75, 1] = ''0000''"
    and z: "zip_entries example_codecs [80, 75, 1] = Some sparse_entries"
    by (simp_all add: example_codecs_def)
  show ?thesis
    by (simp add: unpack_component_def example_path t e h z sparse_extractall Let_def)
qed

text \<open>
  The claim as stated fails in two ways.  Where \<open>checkpoint/<component>\<close> is missing,
  \<open>pack_component\<close> raises \<open>FileNotFoundError\<close>: \<open>walk_component\<close> lists the directory
  without asking whether it is there.  And where both directories are there, one of them
  empty and the other with an empty subdirectory, packing and unpacking into an empty
  destination succeeds but gives back neither empty directory, so the result differs from
  the component's tree and cannot be packed again.
\<close>

theorem pack_unpack_loses_directories:
  "fst (pack_component example_codecs ''/tmp'' example_self ''fe_0'' variables_only_source) =
     Inl FileNotFoundError \<and>
   wf_node (model_root sparse_source) \<and>
   is_dir [''variables'', ''data'', ''fe_0'', ''v2''] (model_root sparse_source) \<and>
   is_dir [''checkpoint'', ''fe_0''] (model_root sparse_source) \<and>
   fst (pack_component example_codecs ''/tmp'' example_self ''fe_0'' sparse_source) =
     Inr (''/tmp/guest#9999#m_v1_fe_0.zip'', ''0000'') \<and>
   model_root sparse_destination = Dir [] \<and>
   unpack_component example_codecs ''/tmp'' example_self ''fe_0'' (Some ''0000'') sparse_destination =
     (Inr (),
      sparse_destination
        \<lparr>model_root :=
           Dir [(''variables'',
                 Dir [(''data'', Dir [(''fe_0'', Dir [(''default'', Dir [(''Meta'', File [1, 2])])])])])]\<rparr>) \<and>
   lookup [''variables'', ''data'', ''fe_0'', ''v2'']
     (model_root (snd (unpack_component example_codecs ''/tmp'' example_self ''fe_0'' (Some ''0000'')
                         sparse_destination))) = None \<and>
   lookup [''checkpoint'', ''fe_0'']
     (model_root (snd (unpack_component example_codecs ''/tmp'' example_self ''fe_0'' (Some ''0000'')
                         sparse_destination))) = None \<and>
   fst (pack_component example_codecs ''/tmp'' example_self ''fe_0''
          (snd (unpack_component example_codecs ''/tmp'' example_self ''fe_0'' (Some ''0000'')
                  sparse_destination))) = Inl FileNotFoundError"
proof -
  have a: "fst (pack_component example_codecs ''/tmp'' example_self ''fe_0'' variables_only_source) =
     Inl FileNotFoundError"
    by (simp add: pack_component_def variables_only_source_def variables_data_path_def
          checkpoint_path_def Let_def)
  have b: "wf_node (model_root sparse_source)"
    by (simp add: sparse_source_def sparse_root_def valid_name_def)
  have c: "is_dir [''variables'', ''data'', ''fe_0'', ''v2''] (model_root sparse_source)"
    and d: "is_dir [''checkpoint'', ''fe_0''] (model_root sparse_source)"
    by (simp_all add: is_dir_def sparse_source_def sparse_root_def)
  have e: "model_root sparse_destination = Dir []"
    by (simp add: sparse_destination_def)
  have f: "fst (pack_component example_codecs ''/tmp'' example_self ''fe_0''
          (sparse_destination
        \<lparr>model_root :=
           Dir [(''variables'',
                 Dir [(''data'', Dir [(''fe_0'', Dir [(''default'', Dir [(''Meta'', File [1, 2])])])])])]\<rparr>)) =
       Inl FileNotFoundError"
    by (simp add: pack_component_def sparse_destination_def variables_data_path_def
          checkpoint_path_def Let_def)
  show ?thesis
    unfolding sparse_unpacked
    using a b c d e f by (simp add: sparse_packed)
qed

lemma example_extractall:
  "extractall example_entries (Dir []) =
     (Inr (),
      Dir [(''variables'',
            Dir [(''data'',
                  Dir [(''fe_0'',
                        Dir [(''default'', Dir [(''Meta'', File [1, 2]), (''Param'', File [3])]),
                             (''v2'', Dir [(''Meta'', File [4])])])])]),
           (''checkpoint'', Dir [(''fe_0'', Dir [(''step1'', File [9])])])])"
  by (simp add: example_entries_def sanitize_def make_upperdirs_def)

theorem unpack_component_integrity_witness:
  "temp_directory example_destination (get_archive_path ''/tmp'' example_self ''fe_0'') = Some [80, 75, 4] \<and>
   ''deadbeef'' \<noteq> sha256_hexdigest example_codecs [80, 75, 4] \<and>
   unpack_component example_codecs ''/tmp'' example_self ''fe_0'' (Some ''deadbeef'') example_destination =
     (Inl (hash_mismatch ''/tmp/guest#9999#m_v1_fe_0.zip'' ''deadbeef'' ''c0ffee''), example_destination) \<and>
   unpack_component example_codecs ''/tmp'' example_self ''fe_0'' (Some ''c0ffee'') example_destination =
     (Inr (),
      example_destination
        \<lparr>model_root :=
           Dir [(''variables'',
                 Dir [(''data'',
                       Dir [(''fe_0'',
                             Dir [(''default'', Dir [(''Meta'', File [1, 2]), (''Param'', File [3])]),
                                  (''v2'', Dir [(''Meta'', File [4])])])])]),
                (''checkpoint'', Dir [(''fe_0'', Dir [(''step1'', File [9])])])]\<rparr>) \<and>
   unpack_component example_codecs ''/tmp'' example_self ''fe_0'' None example_source =
     (Inl FileNotFoundError, example_source)"
proof -
  have t: "temp_directory example_destination (get_archive_path ''/tmp'' example_self ''fe_0'') =
             Some [80, 75, 4]"
    by (simp add: example_destination_def example_path)
  have h: "sha256_hexdigest example_codecs [80, 75, 4] = ''c0ffee''"
    by (simp add: example_codecs_def)
  have ne: "''deadbeef'' \<noteq> sha256_hexdigest example_codecs [80, 75, 4]"
    by (simp add: h)
  have z: "zip_entries example_codecs [80, 75, 4] = Some example_entries"
    by (simp add: example_codecs_def)
  have m: "temp_directory example_source (get_archive_path ''/tmp'' example_self ''fe_0'') = None"
    by (simp add: example_source_def)
  have e: "model_root example_destination = Dir []"
    by (simp add: example_destination_def)
  note i1 = unpack_component_integrity [of "Some ''deadbeef''" example_destination "''/tmp''" example_self
      "''fe_0''" example_codecs]
  note i2 = unpack_component_integrity [of "Some ''c0ffee''" example_destination "''/tmp''" example_self
      "''fe_0''" example_codecs]
  note i3 = unpack_component_integrity [of None example_source "''/tmp''" example_self
      "''fe_0''" example_codecs]
  have u1: "unpack_component example_codecs ''/tmp'' example_self ''fe_0'' (Some ''deadbeef'')
              example_destination =
     (Inl (hash_mismatch (get_archive_path ''/tmp'' example_self ''fe_0'') ''deadbeef''
             (sha256_hexdigest example_codecs [80, 75, 4])), example_destination)"
    using i1 t ne by blast
  have "Some ''c0ffee'' = None \<or> Some ''c0ffee'' = Some (sha256_hexdigest example_codecs [80, 75, 4])"
    by (simp add: h)
  with i2 t have u2: "unpack_component example_codecs ''/tmp'' example_self ''fe_0'' (Some ''c0ffee'')
              example_destination =
     (case zip_entries example_codecs [80, 75, 4] of
        None \<Rightarrow> (Inl BadZipFile, example_destination)
      | Some members \<Rightarrow>
          (fst (extractall members (model_root example_destination)),
           example_destination\<lparr>model_root := snd (extractall members (model_root example_destination))\<rparr>))"
    by blast
  have u3: "unpack_component example_codecs ''/tmp'' example_self ''fe_0'' None example_source =
     (Inl FileNotFoundError, example_source)"
    using i3 m by blast
  show ?thesis
    unfolding u1 u2 u3 z e example_extractall
    using t ne by (simp add: h example_path example_extractall)
qed

section \<open>Properties of pipelined\_component.py: define-meta\<close>

lemma keys_dict_set: "fst ` set (dict_set k v d) = insert k (fst ` set d)"
  by (induction d) auto

lemma keys_dict_update: "fst ` set (dict_update d m) = fst ` set d \<union> fst ` set m"
  unfolding dict_update_def
  by (induction m arbitrary: d) (auto simp: keys_dict_set)

lemma replica_labels:
  "replica m row = Inr (dict_update (map (\<lambda>l. (l, cell_of row l)) column_labels) m)"
  by (simp add: replica_def to_dict_def column_labels_def dict_pop_def dict_del_def bindE_def
        strip_prefix_def dict_update_def)

text \<open>
  Every dictionary of \<open>replicate_define_meta\<close> holds the key \<open>model_id\<close>, which is not a
  field name, so the insertion takes none of them, whatever the modification is.
\<close>

lemma bare_key_rejected:
  assumes "''model_id'' \<in> fst ` set d"
  shows "\<exists>e. row_of_dict n d = Inl e"
proof -
  have "''model_id'' \<notin> set field_names"
    by (simp add: field_names_def column_labels_def)
  with assms have "''model_id'' \<in> set (filter (\<lambda>key. key \<notin> set field_names) (map fst d))"
    by auto
  then obtain key others where "filter (\<lambda>key. key \<notin> set field_names) (map fst d) = key # others"
    by (cases "filter (\<lambda>key. key \<notin> set field_names) (map fst d)") auto
  then show ?thesis
    by (simp add: row_of_dict_def known_fields_def bindE_def)
qed

lemma replica_rejected: "\<exists>d e. replica m row = Inr d \<and> row_of_dict n d = Inl e"
proof -
  have "''model_id'' \<in> fst ` set (dict_update (map (\<lambda>l. (l, cell_of row l)) column_labels) m)"
    by (simp add: keys_dict_update column_labels_def)
  from bare_key_rejected [OF this] show ?thesis
    by (simp add: replica_labels)
qed

lemma replicas_rejected:
  assumes "rows \<noteq> []"
  shows "\<exists>ds e. replicas m rows = Inr ds \<and> rows_of_dicts n ds = Inl e"
proof -
  have total: "\<exists>ds. replicas m rs = Inr ds \<and> length ds = length rs" for rs
    by (induction rs) (auto simp: replica_labels bindE_def)
  from assms obtain row rest where rows: "rows = row # rest" by (cases rows) auto
  from replica_rejected [of m row n] obtain d e where
    d: "replica m row = Inr d" and e: "row_of_dict n d = Inl e" by blast
  from total [of rest] obtain ds where ds: "replicas m rest = Inr ds" by blast
  show ?thesis
    by (simp add: rows d ds e bindE_def)
qed

lemma replicate_define_meta_table:
  "snd (replicate_define_meta self m extra_args table) = table"
proof (cases extra_args)
  case None
  then show ?thesis by (simp add: replicate_define_meta_def)
next
  case (Some args)
  show ?thesis
  proof (cases "get_define_meta_from_db self args table = []")
    case True
    with Some show ?thesis by (simp add: replicate_define_meta_def)
  next
    case False
    from replicas_rejected [OF False, of m "next_id table"] obtain ds e where
      "replicas m (get_define_meta_from_db self args table) = Inr ds"
      "rows_of_dicts (next_id table) ds = Inl e"
      by blast
    with Some False show ?thesis
      by (simp add: replicate_define_meta_def bulk_insert_into_db_def)
  qed
qed

text \<open>
  Claim C9.  The dictionaries that \<open>replicate_define_meta\<close> builds are keyed by the
  bare labels, since the source strips the prefix \<open>f_\<close> from every key, while the fields
  of the table are named with that prefix, as \<open>save_define_meta\<close> and
  \<open>save_define_meta_from_file_to_db\<close> name them.  With two matching rows and the
  modification \<open>{'party_id': 'P2'}\<close>, the dictionary built for the first row is the one
  below, no row is inserted, and the table is as it was; the same cells under the field
  names are inserted as the copy the claim describes.
\<close>

theorem replicate_define_meta_bare_keys:
  "get_define_meta_from_db example_self [] example_table = example_table \<and>
   replica [(''party_id'', Text ''P2'')] (example_row 1 ''hetero_lr_0'' ''default'' (Some ''abc'')) =
     Inr [(''model_id'', Text ''m''), (''model_version'', Text ''v1''), (''role'', Text ''guest''),
          (''party_id'', Text ''P2''), (''component_name'', Text ''hetero_lr_0''),
          (''component_module_name'', Text ''HeteroLR''), (''model_alias'', Text ''default''),
          (''model_proto_index'', Json [(''HeteroLRParam'', ''LRModelParam'')]),
          (''run_parameters'', Json [(''max_iter'', ''10'')]),
          (''archive_sha256'', Text ''abc''), (''archive_from_ip'', Text ''hostA'')] \<and>
   snd (replicate_define_meta example_self [(''party_id'', Text ''P2'')] (Some []) example_table) =
     example_table \<and>
   bulk_insert_into_db
     [[(''f_model_id'', Text ''m''), (''f_model_version'', Text ''v1''), (''f_role'', Text ''guest''),
       (''f_party_id'', Text ''P2''), (''f_component_name'', Text ''hetero_lr_0''),
       (''f_component_module_name'', Text ''HeteroLR''), (''f_model_alias'', Text ''default''),
       (''f_model_proto_index'', Json [(''HeteroLRParam'', ''LRModelParam'')]),
       (''f_run_parameters'', Json [(''max_iter'', ''10'')]),
       (''f_archive_sha256'', Text ''abc''), (''f_archive_from_ip'', Text ''hostA'')]]
     example_table =
     (Inr (), example_table @ [(example_row 3 ''hetero_lr_0'' ''default'' (Some ''abc''))\<lparr>f_party_id := ''P2''\<rparr>])"
proof -
  have q: "get_define_meta_from_db example_self [] example_table = example_table"
    by (simp add: get_define_meta_from_db_def query_args_def example_self_def example_table_def
          example_row_def)
  have r: "replica [(''party_id'', Text ''P2'')] (example_row 1 ''hetero_lr_0'' ''default'' (Some ''abc'')) =
     Inr [(''model_id'', Text ''m''), (''model_version'', Text ''v1''), (''role'', Text ''guest''),
          (''party_id'', Text ''P2''), (''component_name'', Text ''hetero_lr_0''),
          (''component_module_name'', Text ''HeteroLR''), (''model_alias'', Text ''default''),
          (''model_proto_index'', Json [(''HeteroLRParam'', ''LRModelParam'')]),
          (''run_parameters'', Json [(''max_iter'', ''10'')]),
          (''archive_sha256'', Text ''abc''), (''archive_from_ip'', Text ''hostA'')]"
    by (simp add: replica_labels column_labels_def cell_of_def example_row_def nullable_def
          dict_update_def)
  have n: "next_id example_table = 3"
    by (simp add: next_id_def example_table_def example_row_def)
  have b: "bulk_insert_into_db
     [[(''f_model_id'', Text ''m''), (''f_model_version'', Text ''v1''), (''f_role'', Text ''guest''),
       (''f_party_id'', Text ''P2''), (''f_component_name'', Text ''hetero_lr_0''),
       (''f_component_module_name'', Text ''HeteroLR''), (''f_model_alias'', Text ''default''),
       (''f_model_proto_index'', Json [(''HeteroLRParam'', ''LRModelParam'')]),
       (''f_run_parameters'', Json [(''max_iter'', ''10'')]),
       (''f_archive_sha256'', Text ''abc''), (''f_archive_from_ip'', Text ''hostA'')]]
     example_table =
     (Inr (), example_table @ [(example_row 3 ''hetero_lr_0'' ''default'' (Some ''abc''))\<lparr>f_party_id := ''P2''\<rparr>])"
    by (simp add: bulk_insert_into_db_def n row_of_dict_def known_fields_def field_names_def
          column_labels_def text_column_def json_column_def null_column_def column_def bindE_def
          example_row_def)
  show ?thesis
    using q r b replicate_define_meta_table [of example_self "[(''party_id'', Text ''P2'')]" "Some []" example_table]
    by blast
qed

theorem replicate_define_meta_bare_keys_witness:
  "length (snd (replicate_define_meta example_self [(''party_id'', Text ''P2'')] (Some []) example_table)) = 2"
proof -
  have "snd (replicate_define_meta example_self [(''party_id'', Text ''P2'')] (Some []) example_table) =
          example_table"
    using replicate_define_meta_bare_keys by blast
  then show ?thesis
    by (simp add: example_table_def)
qed

lemma keeps_refl: "keeps t t"
  by (simp add: keeps_def)

lemma keeps_trans: "keeps t2 t1 \<Longrightarrow> keeps t3 t2 \<Longrightarrow> keeps t3 t1"
  by (auto simp: keeps_def)

lemma makedirs_keeps: "makedirs u t = Inr t' \<Longrightarrow> keeps t' t"
proof (induction u arbitrary: t t')
  case Nil
  then show ?case by (cases t) (auto simp: keeps_refl)
next
  case (Cons x xs)
  then obtain es where t: "t = Dir es" by (cases t) auto
  let ?c = "case map_of es x of None \<Rightarrow> Dir [] | Some c \<Rightarrow> c"
  from Cons.prems t obtain c' where c': "makedirs xs ?c = Inr c'" and t': "t' = Dir (dict_set x c' es)"
    by (auto split: sum.splits)
  from Cons.IH [OF c'] have k: "keeps c' ?c" .
  show ?case
    unfolding keeps_def
  proof (intro allI impI)
    fix q assume a: "kind t q \<noteq> None"
    show "kind t' q = kind t q"
    proof (cases q)
      case Nil
      then show ?thesis by (simp add: t t' kind_simps)
    next
      case (Cons y q')
      show ?thesis
      proof (cases "y = x")
        case True
        with a Cons obtain c where c: "map_of es x = Some c" and kc: "kind c q' \<noteq> None"
          by (auto simp: t kind_simps split: option.splits)
        with k have "kind c' q' = kind c q'" by (simp add: keeps_def)
        with c True Cons show ?thesis by (simp add: t t' kind_simps map_of_dict_set)
      next
        case False
        with Cons show ?thesis by (simp add: t t' kind_simps map_of_dict_set)
      qed
    qed
  qed
qed

lemma write_exclusive_keeps:
  "write_file Exclusive p b t = Inr t' \<Longrightarrow> kind t p = None \<and> keeps t' t \<and> kind t' p = Some (Some b)"
proof (induction p arbitrary: t t')
  case Nil
  then show ?case by (cases t) auto
next
  case (Cons x xs)
  then obtain es where t: "t = Dir es" by (cases t) auto
  show ?case
  proof (cases "map_of es x")
    case None
    with Cons.prems t have xs: "xs = []" and t': "t' = Dir (es @ [(x, File b)])"
      by (auto split: if_splits)
    have "keeps t' t"
      unfolding keeps_def
    proof (intro allI impI)
      fix q assume a: "kind t q \<noteq> None"
      show "kind t' q = kind t q"
      proof (cases q)
        case Nil
        then show ?thesis by (simp add: t t' kind_simps)
      next
        case (Cons y q')
        with a None have "y \<noteq> x" by (auto simp: t kind_simps)
        with Cons a show ?thesis
          by (auto simp: t t' kind_simps map_add_def split: option.splits)
      qed
    qed
    moreover have "kind t (x # xs) = None" using None by (simp add: t kind_simps)
    moreover have "kind t' (x # xs) = Some (Some b)"
      using None by (simp add: t' xs kind_simps map_add_def)
    ultimately show ?thesis by simp
  next
    case (Some c)
    with Cons.prems t obtain c' where c': "write_file Exclusive xs b c = Inr c'"
      and t': "t' = Dir (dict_set x c' es)"
      by (auto split: sum.splits)
    from Cons.IH [OF c'] have n: "kind c xs = None" and k: "keeps c' c" and f: "kind c' xs = Some (Some b)"
      by simp_all
    have "keeps t' t"
      unfolding keeps_def
    proof (intro allI impI)
      fix q assume a: "kind t q \<noteq> None"
      show "kind t' q = kind t q"
      proof (cases q)
        case Nil
        then show ?thesis by (simp add: t t' kind_simps)
      next
        case (Cons y q')
        show ?thesis
        proof (cases "y = x")
          case True
          with a Cons Some have "kind c q' \<noteq> None" by (simp add: t kind_simps)
          with k have "kind c' q' = kind c q'" by (simp add: keeps_def)
          with True Cons Some show ?thesis by (simp add: t t' kind_simps map_of_dict_set)
        next
          case False
          with Cons show ?thesis by (simp add: t t' kind_simps map_of_dict_set)
        qed
      qed
    qed
    with n f Some show ?thesis by (simp add: t t' kind_simps map_of_dict_set)
  qed
qed

lemma write_truncate_existing:
  assumes "p \<noteq> []" and "kind t p = Some (Some old)"
  shows "\<exists>t'. write_file Truncate p b t = Inr t' \<and>
           (\<forall>q. kind t' q = (if q = p then Some (Some b) else kind t q))"
proof -
  have sp: "strict_prefix (butlast p) p"
    using assms(1) prefix_butlast_iff [OF assms(1), of "butlast p"] by simp
  have d: "kind t (butlast p) = Some None"
    by (rule kind_strict_prefix_dir [OF assms(2) sp])
  have nd: "kind t p \<noteq> Some None" using assms(2) by simp
  from write_file_kind [OF assms(1) d nd, of b] obtain t' where
    w: "write_file Truncate p b t = Inr t'"
    and k: "\<And>q. kind t' q = (if q = p then Some (Some b) else
                              if strict_prefix p q then None else kind t q)"
    by blast
  have "kind t q = None" if "strict_prefix p q" for q
  proof (cases "kind t q")
    case None
    then show ?thesis .
  next
    case (Some k')
    from kind_strict_prefix_dir [OF Some that] assms(2) show ?thesis by simp
  qed
  with k have "kind t' q = (if q = p then Some (Some b) else kind t q)" for q
    by auto
  with w show ?thesis by blast
qed

lemma write_run_parameters_keeps:
  "write_run_parameters cd attr rows root = (r, root') \<Longrightarrow>
     keeps root' root \<and>
     (r = Inr () \<longrightarrow>
        (\<forall>row \<in> set rows. kind root (get_run_parameters_path (f_component_name row)) = None))"
proof (induction rows arbitrary: root)
  case Nil
  then show ?case by (simp add: keeps_refl)
next
  case (Cons row rows)
  let ?p = "get_run_parameters_path (f_component_name row)"
  have ne: "?p \<noteq> []" by (simp add: get_run_parameters_path_def)
  show ?case
  proof (cases "makedirs (butlast ?p) root")
    case (Inl e)
    with Cons.prems show ?thesis by (auto simp: keeps_refl)
  next
    case (Inr root1)
    note m = makedirs_keeps [OF Inr]
    show ?thesis
    proof (cases "write_file Exclusive ?p [] root1")
      case (Inl e)
      with Cons.prems Inr m show ?thesis by auto
    next
      case x: (Inr root2)
      from write_exclusive_keeps [OF x] have n1: "kind root1 ?p = None" and k2: "keeps root2 root1"
        and f2: "kind root2 ?p = Some (Some [])"
        by simp_all
      have k02: "keeps root2 root" by (rule keeps_trans [OF m k2])
      have n0: "kind root ?p = None"
      proof (rule ccontr)
        assume "kind root ?p \<noteq> None"
        with m have "kind root1 ?p = kind root ?p" by (simp add: keeps_def)
        with n1 \<open>kind root ?p \<noteq> None\<close> show False by simp
      qed
      show ?thesis
      proof (cases "attr row")
        case (Inl e)
        with Cons.prems Inr x k02 show ?thesis by auto
      next
        case a: (Inr params)
        from write_truncate_existing [OF ne f2, of "json_dumps cd params"] obtain root3 where
          w: "write_file Truncate ?p (json_dumps cd params) root2 = Inr root3"
          and k3: "\<And>q. kind root3 q = (if q = ?p then Some (Some (json_dumps cd params)) else kind root2 q)"
          by blast
        have k03: "keeps root3 root"
          unfolding keeps_def
        proof (intro allI impI)
          fix q assume q: "kind root q \<noteq> None"
          with n0 have "q \<noteq> ?p" by auto
          with k3 have "kind root3 q = kind root2 q" by simp
          with k02 q show "kind root3 q = kind root q" by (simp add: keeps_def)
        qed
        from Cons.prems Inr x a w have rest: "write_run_parameters cd attr rows root3 = (r, root')"
          by simp
        from Cons.IH [OF rest] have k: "keeps root' root3"
          and s: "r = Inr () \<longrightarrow>
                 (\<forall>row \<in> set rows. kind root3 (get_run_parameters_path (f_component_name row)) = None)"
          by simp_all
        have "kind root q = None" if "kind root3 q = None" for q
        proof (rule ccontr)
          assume "kind root q \<noteq> None"
          with k03 have "kind root3 q = kind root q" by (simp add: keeps_def)
          with that \<open>kind root q \<noteq> None\<close> show False by simp
        qed
        with s n0 keeps_trans [OF k03 k] show ?thesis by auto
      qed
    qed
  qed
qed


lemma db_to_file_keeps:
  "save_define_meta_from_db_to_file cd attr self table root = (r, root') \<Longrightarrow>
     keeps root' root \<and>
     (r = Inr () \<longrightarrow>
        kind root define_meta_path = None \<and>
        (\<forall>row \<in> set (get_define_meta_from_db self [] table).
           kind root (get_run_parameters_path (f_component_name row)) = None))"
proof -
  assume a: "save_define_meta_from_db_to_file cd attr self table root = (r, root')"
  let ?q = "get_define_meta_from_db self [] table"
  have ne: "define_meta_path \<noteq> []" by (simp add: define_meta_path_def)
  show ?thesis
  proof (cases "?q = []")
    case True
    with a show ?thesis by (auto simp: save_define_meta_from_db_to_file_def keeps_refl)
  next
    case False
    obtain r1 root1 where w: "write_run_parameters cd attr ?q root = (r1, root1)"
      by (cases "write_run_parameters cd attr ?q root")
    from write_run_parameters_keeps [OF w] have k1: "keeps root1 root"
      and s1: "r1 = Inr () \<longrightarrow>
               (\<forall>row \<in> set ?q. kind root (get_run_parameters_path (f_component_name row)) = None)"
      by simp_all
    show ?thesis
    proof (cases r1)
      case (Inl e)
      with a False w k1 show ?thesis by (auto simp: save_define_meta_from_db_to_file_def)
    next
      case r1: (Inr u)
      show ?thesis
      proof (cases "makedirs (butlast define_meta_path) root1")
        case (Inl e)
        with a False w r1 k1 show ?thesis by (auto simp: save_define_meta_from_db_to_file_def)
      next
        case m: (Inr root2)
        have k2: "keeps root2 root" by (rule keeps_trans [OF k1 makedirs_keeps [OF m]])
        show ?thesis
        proof (cases "write_file Exclusive define_meta_path [] root2")
          case (Inl e)
          with a False w r1 m k2 show ?thesis by (auto simp: save_define_meta_from_db_to_file_def)
        next
          case x: (Inr root3)
          from write_exclusive_keeps [OF x] have n2: "kind root2 define_meta_path = None"
            and k23: "keeps root3 root2" and f3: "kind root3 define_meta_path = Some (Some [])"
            by simp_all
          have n0: "kind root define_meta_path = None"
          proof (rule ccontr)
            assume c: "kind root define_meta_path \<noteq> None"
            with k2 have "kind root2 define_meta_path = kind root define_meta_path"
              by (simp add: keeps_def)
            with n2 c show False by simp
          qed
          from write_truncate_existing [OF ne f3, of "yaml_dump cd (rearrange_define_meta ?q)"]
          obtain root4 where
            t: "write_file Truncate define_meta_path (yaml_dump cd (rearrange_define_meta ?q)) root3 = Inr root4"
            and k4: "\<And>q. kind root4 q =
                       (if q = define_meta_path then Some (Some (yaml_dump cd (rearrange_define_meta ?q)))
                        else kind root3 q)"
            by blast
          have k03: "keeps root3 root" by (rule keeps_trans [OF k2 k23])
          have k04: "keeps root4 root"
            unfolding keeps_def
          proof (intro allI impI)
            fix q assume q: "kind root q \<noteq> None"
            with n0 have "q \<noteq> define_meta_path" by auto
            with k4 have "kind root4 q = kind root3 q" by simp
            with k03 q show "kind root4 q = kind root q" by (simp add: keeps_def)
          qed
          from a False w r1 m x t have "r = Inr ()" and "root' = root4"
            by (auto simp: save_define_meta_from_db_to_file_def)
          with k04 n0 s1 r1 show ?thesis by simp
        qed
      qed
    qed
  qed
qed

text \<open>
  Claim C8, as amended.  \<open>save_define_meta_from_file_to_db\<close> raises the already-exists
  error and leaves the table as it was when a row of the identity exists.
  \<open>save_define_meta_from_db_to_file\<close> raises the error for missing define-meta, with
  nothing written, when no row exists.  It opens every file in mode \<open>'x'\<close>: a file that
  was there before the call has the same bytes after it, whatever the outcome, and the
  call succeeds only if neither the define-meta file nor any of the run-parameters files
  existed.  This holds for every meaning of the attribute \<open>run_parameters\<close> of a row.
\<close>

theorem one_way_migrations:
  "(filter (query_args self) table \<noteq> [] \<longrightarrow>
      save_define_meta_from_file_to_db cd self table root = (Inl already_exists, table)) \<and>
   (get_define_meta_from_db self [] table = [] \<longrightarrow>
      save_define_meta_from_db_to_file cd attr self table root = (Inl no_define_meta, root)) \<and>
   (\<forall>p b. file_at root p = Some b \<longrightarrow>
      file_at (snd (save_define_meta_from_db_to_file cd attr self table root)) p = Some b) \<and>
   (fst (save_define_meta_from_db_to_file cd attr self table root) = Inr () \<longrightarrow>
      kind root define_meta_path = None \<and>
      (\<forall>row \<in> set (get_define_meta_from_db self [] table).
         kind root (get_run_parameters_path (f_component_name row)) = None))"
proof -
  have 1: "save_define_meta_from_file_to_db cd self table root = (Inl already_exists, table)"
    if "filter (query_args self) table \<noteq> []"
    using that by (simp add: save_define_meta_from_file_to_db_def)
  have 2: "save_define_meta_from_db_to_file cd attr self table root = (Inl no_define_meta, root)"
    if "get_define_meta_from_db self [] table = []"
    using that by (simp add: save_define_meta_from_db_to_file_def)
  obtain r root' where a: "save_define_meta_from_db_to_file cd attr self table root = (r, root')"
    by (cases "save_define_meta_from_db_to_file cd attr self table root")
  note k = db_to_file_keeps [OF a]
  have 3: "file_at root' p = Some b" if "file_at root p = Some b" for p b
    using that k by (auto simp: keeps_def file_at_kind)
  show ?thesis
    using 1 2 3 k by (auto simp: a)
qed

text \<open>
  The claim as stated also says that \<open>save_define_meta_from_db_to_file\<close> fails before
  writing when the destination is populated.  It does not: with the define-meta file in
  place and no run-parameters files, the call creates the run-parameters file of the first
  row and only then fails, be it on the define-meta file (when a row has the attribute
  \<open>run_parameters\<close>) or on reading that attribute (when it has not).
\<close>

theorem db_to_file_writes_before_failing:
  "file_at example_root define_meta_path = Some [7] \<and>
   file_at example_root (get_run_parameters_path ''hetero_lr_0'') = None \<and>
   fst (save_define_meta_from_db_to_file example_codecs (\<lambda>row. Inr (f_run_parameters row))
          example_self example_table example_root) = Inl FileExistsError \<and>
   file_at (snd (save_define_meta_from_db_to_file example_codecs (\<lambda>row. Inr (f_run_parameters row))
                   example_self example_table example_root))
     (get_run_parameters_path ''hetero_lr_0'') = Some [123, 49, 125] \<and>
   fst (save_define_meta_from_db_to_file example_codecs (\<lambda>row. Inl (AttributeError ''run_parameters''))
          example_self example_table example_root) = Inl (AttributeError ''run_parameters'') \<and>
   file_at (snd (save_define_meta_from_db_to_file example_codecs
                   (\<lambda>row. Inl (AttributeError ''run_parameters''))
                   example_self example_table example_root))
     (get_run_parameters_path ''hetero_lr_0'') = Some []"
  by (simp add: save_define_meta_from_db_to_file_def get_define_meta_from_db_def query_args_def
        example_self_def example_table_def example_row_def example_root_def example_codecs_def
        get_run_parameters_path_def run_parameters_path_def define_meta_path_def file_at_def)


theorem one_way_migrations_witness:
  "filter (query_args example_self) example_table \<noteq> [] \<and>
   save_define_meta_from_file_to_db example_codecs example_self example_table example_root =
     (Inl already_exists, example_table) \<and>
   get_define_meta_from_db example_self [] [] = [] \<and>
   save_define_meta_from_db_to_file example_codecs (\<lambda>row. Inr (f_run_parameters row)) example_self []
     example_root = (Inl no_define_meta, example_root) \<and>
   file_at example_root define_meta_path = Some [7] \<and>
   file_at (snd (save_define_meta_from_db_to_file example_codecs (\<lambda>row. Inr (f_run_parameters row))
                   example_self example_table example_root)) define_meta_path = Some [7] \<and>
   fst (save_define_meta_from_db_to_file example_codecs (\<lambda>row. Inr (f_run_parameters row))
          example_self example_table (Dir [])) = Inr () \<and>
   kind (Dir []) define_meta_path = None"
proof -
  let ?attr = "\<lambda>row. (Inr (f_run_parameters row) :: error + json_object)"
  have a: "filter (query_args example_self) example_table \<noteq> []"
    by (simp add: query_args_def example_self_def example_table_def example_row_def)
  have b: "get_define_meta_from_db example_self [] [] = []"
    by (simp add: get_define_meta_from_db_def)
  have c: "file_at example_root define_meta_path = Some [7]"
    by (simp add: file_at_def example_root_def define_meta_path_def)
  have d: "fst (save_define_meta_from_db_to_file example_codecs ?attr example_self example_table (Dir [])) =
             Inr ()"
    by (simp add: save_define_meta_from_db_to_file_def get_define_meta_from_db_def query_args_def
          example_self_def example_table_def example_row_def example_codecs_def
          get_run_parameters_path_def run_parameters_path_def define_meta_path_def)
  have 1: "save_define_meta_from_file_to_db example_codecs example_self example_table example_root =
     (Inl already_exists, example_table)"
    using one_way_migrations [of example_self example_table example_codecs example_root] a by blast
  have 2: "save_define_meta_from_db_to_file example_codecs ?attr example_self [] example_root =
     (Inl no_define_meta, example_root)"
    using one_way_migrations [of example_self "[]" example_codecs example_root ?attr] b by blast
  have 3: "file_at (snd (save_define_meta_from_db_to_file example_codecs ?attr example_self example_table
                          example_root)) define_meta_path = Some [7]"
    using one_way_migrations [of example_self example_table example_codecs example_root ?attr] c by blast
  have 4: "kind (Dir []) define_meta_path = None"
    using one_way_migrations [of example_self example_table example_codecs "Dir []" ?attr] d by blast
  show ?thesis
    using a b c d 1 2 3 4 by blast
qed



lemma map_of_append_fresh: "k \<notin> fst ` set d \<Longrightarrow> map_of (d @ [(k, v)]) k = Some v"
  by (induction d) auto
















end
